theory Spec2Isabelle
  imports Complex_Main "HOL-Library.Log_Nat"
begin

section \<open>Python values and exceptions\<close>

text \<open>
  The exceptions that the modelled code raises, catches or lets through. Every
  constructor but \<open>KeyboardInterrupt\<close> is a subclass of Python's \<open>Exception\<close>;
  \<open>KeyboardInterrupt\<close> derives from \<open>BaseException\<close> only, so a clause
  \<^verbatim>\<open>except Exception\<close> does not catch it.
\<close>

datatype exn =
    ValueError string
  | UnexpectedResponse nat
  | ResponseHandlingException
  | KeyError string
  | IndexError
  | TypeError
  | AssertionError
  | OverflowError
  | PipelineNeverRan string string
  | PipelineHasPendingDataException string string
  | KeyboardInterrupt

fun is_Exception :: "exn \<Rightarrow> bool" where
  "is_Exception KeyboardInterrupt = False"
| "is_Exception _ = True"

text \<open>JSON scalars as they appear in a payload; \<open>py_str\<close> is Python's \<open>str()\<close> on them.\<close>

datatype pyval = PStr string | PInt int | PBool bool | PNone

fun str_nat :: "nat \<Rightarrow> string" where
  "str_nat n =
     (if n < 10 then [char_of (48 + n)]
      else str_nat (n div 10) @ [char_of (48 + n mod 10)])"

declare str_nat.simps [simp del]

fun py_str :: "pyval \<Rightarrow> string" where
  "py_str (PStr s) = s"
| "py_str (PInt i) = (if i < 0 then CHR ''-'' # str_nat (nat (- i)) else str_nat (nat i))"
| "py_str (PBool b) = (if b then ''True'' else ''False'')"
| "py_str PNone = ''None''"

text \<open>\<^verbatim>\<open>sep.join(xs)\<close>\<close>

fun join :: "string \<Rightarrow> string list \<Rightarrow> string" where
  "join sep [] = []"
| "join sep [x] = x"
| "join sep (x # y # ys) = x @ sep @ join sep (y # ys)"

section \<open>The retry classifier (\<open>dlt/pipeline/helpers.py\<close>)\<close>

text \<open>
  What \<open>_retry_load\<close> reads of an exception object: whether it is a
  \<open>PipelineStepFailed\<close> (and then its \<open>step\<close>), whether it is an instance of
  \<open>TerminalException\<close>, and its \<open>__context__\<close>.
\<close>

datatype exc_class = PipelineStepFailed (step: string) | OtherException

datatype pyexc = PyExc (cls: exc_class) (terminal: bool) (exc_context: "pyexc option")

definition default_retry_on_pipeline_steps :: "string list" where
  "default_retry_on_pipeline_steps = [''load'']"

definition retry_load :: "string list \<Rightarrow> pyexc \<Rightarrow> bool" where
  "retry_load retry_on_pipeline_steps ex =
     (if (case cls ex of
            PipelineStepFailed s \<Rightarrow> s \<notin> set retry_on_pipeline_steps
          | OtherException \<Rightarrow> False)
      then False
      else if terminal ex \<or> (case exc_context ex of None \<Rightarrow> False | Some c \<Rightarrow> terminal c)
      then False
      else True)"

section \<open>The load job (\<open>qdrant_client.py\<close>, class \<open>LoadQdrantJob\<close>)\<close>

text \<open>
  A column of a table schema with the names of the properties that are set on it, and a
  table schema with what the job reads: \<open>table_schema.get("write_disposition")\<close>
  (\<open>None\<close> when the key is absent) and the columns in their order.
\<close>

record column =
  col_name :: string
  col_props :: "string list"

record table_schema =
  write_disposition :: "string option"
  columns :: "column list"

text \<open>
  Modelled from the spec: \<open>get_columns_names_with_prop\<close> of \<open>dlt.common.schema.utils\<close>
  is not among the sources. The spec speaks of "per-column property flags" and of the
  "columns flagged unique": the names of the columns on which the property is set, in
  column order.
\<close>

definition get_columns_names_with_prop :: "table_schema \<Rightarrow> string \<Rightarrow> string list" where
  "get_columns_names_with_prop t prop =
     map col_name (filter (\<lambda>c. prop \<in> set (col_props c)) (columns t))"

definition list_unique_identifiers :: "table_schema \<Rightarrow> string list" where
  "list_unique_identifiers t =
     (if write_disposition t = Some ''merge'' then
        (let primary_keys = get_columns_names_with_prop t ''primary_key'' in
         if primary_keys \<noteq> [] then primary_keys
         else get_columns_names_with_prop t ''unique'')
      else get_columns_names_with_prop t ''unique'')"

text \<open>
  \<^verbatim>\<open>str(data[key]) for key in unique_identifiers\<close>: the values are read in the order
  of the identifiers and the first missing key raises \<open>KeyError\<close>.
\<close>

fun lookup_all :: "(string \<rightharpoonup> 'v) \<Rightarrow> string list \<Rightarrow> exn + 'v list" where
  "lookup_all data [] = Inr []"
| "lookup_all data (k # ks) =
     (case data k of
        None \<Rightarrow> Inl (KeyError k)
      | Some v \<Rightarrow> (case lookup_all data ks of Inl e \<Rightarrow> Inl e | Inr vs \<Rightarrow> Inr (v # vs)))"

definition NAMESPACE_DNS :: string where
  "NAMESPACE_DNS = ''6ba7b810-9dad-11d1-80b4-00c04fd430c8''"

text \<open>
  The identifiers of points: an unsigned integer, or the text of a UUID. \<open>uuid5\<close>
  (namespace, name) and Python's \<open>str\<close> on the values belong to the standard library
  and are parameters; \<open>uuid5\<close> stands for \<^verbatim>\<open>str(uuid.uuid5(ns, name))\<close>.
\<close>

datatype point_id = IdInt int | IdUuid string

definition generate_uuid ::
  "(string \<Rightarrow> string \<Rightarrow> string) \<Rightarrow> ('v \<Rightarrow> string) \<Rightarrow>
   (string \<rightharpoonup> 'v) \<Rightarrow> string list \<Rightarrow> string \<Rightarrow> exn + string" where
  "generate_uuid uuid5 str data unique_identifiers collection_name =
     (case lookup_all data unique_identifiers of
        Inl e \<Rightarrow> Inl e
      | Inr vs \<Rightarrow>
          (let data_id = join ''_'' (map str vs)
           in Inr (uuid5 NAMESPACE_DNS (collection_name @ data_id))))"

text \<open>
  The loop of \<open>LoadQdrantJob.__init__\<close> that builds \<open>ids\<close>, one per line of the file
  (the lines already parsed by \<open>json.loads\<close>). \<open>uuid.uuid4()\<close> reads the system's
  entropy: the model draws \<open>uuid4 n\<close> and moves the draw counter \<open>n\<close> on.
\<close>

fun job_ids ::
  "(string \<Rightarrow> string \<Rightarrow> string) \<Rightarrow> ('v \<Rightarrow> string) \<Rightarrow> (nat \<Rightarrow> string) \<Rightarrow>
   string list \<Rightarrow> string \<Rightarrow> (string \<rightharpoonup> 'v) list \<Rightarrow> nat \<Rightarrow> exn + (point_id list \<times> nat)" where
  "job_ids uuid5 str uuid4 unique_identifiers collection_name [] n = Inr ([], n)"
| "job_ids uuid5 str uuid4 unique_identifiers collection_name (data # rest) n =
     (if unique_identifiers \<noteq> [] then
        (case generate_uuid uuid5 str data unique_identifiers collection_name of
           Inl e \<Rightarrow> Inl e
         | Inr u \<Rightarrow>
            (case job_ids uuid5 str uuid4 unique_identifiers collection_name rest n of
               Inl e \<Rightarrow> Inl e
             | Inr (ids, n') \<Rightarrow> Inr (IdUuid u # ids, n')))
      else
        (case job_ids uuid5 str uuid4 unique_identifiers collection_name rest (Suc n) of
           Inl e \<Rightarrow> Inl e
         | Inr (ids, n') \<Rightarrow> Inr (IdUuid (uuid4 n) # ids, n')))"

section \<open>The destination: a Qdrant instance behind \<open>db_client\<close>\<close>

text \<open>
  A payload is a Python \<open>dict\<close> of column name and value, kept as an association list
  in insertion order. \<open>dict_set\<close> is \<^verbatim>\<open>d[k] = v\<close>; \<open>dict_zip\<close> is
  \<^verbatim>\<open>{k: v for k, v in zip(ks, vs)}\<close>, where a later pair overwrites an earlier
  one with the same key.
\<close>

type_synonym payload = "(string \<times> pyval) list"

fun dict_set :: "string \<Rightarrow> pyval \<Rightarrow> payload \<Rightarrow> payload" where
  "dict_set k v [] = [(k, v)]"
| "dict_set k v ((k', v') # al) =
     (if k' = k then (k, v) # al else (k', v') # dict_set k v al)"

definition dict_zip :: "string list \<Rightarrow> pyval list \<Rightarrow> payload" where
  "dict_zip ks vs = foldl (\<lambda>al (k, v). dict_set k v al) [] (zip ks vs)"

record point =
  pid :: point_id
  payload :: payload

text \<open>
  The order in which a scroll enumerates points: ascending by id, as the comment in
  \<open>_create_point_no_vector\<close> says ("the point scroll functions orders by id ASC").
  Integer ids precede UUIDs; UUIDs compare as their canonical texts.
\<close>

fun str_less :: "string \<Rightarrow> string \<Rightarrow> bool" where
  "str_less [] [] = False"
| "str_less [] (y # ys) = True"
| "str_less (x # xs) [] = False"
| "str_less (x # xs) (y # ys) =
     ((of_char x :: nat) < of_char y \<or> (x = y \<and> str_less xs ys))"

fun id_less :: "point_id \<Rightarrow> point_id \<Rightarrow> bool" where
  "id_less (IdInt i) (IdInt j) = (i < j)"
| "id_less (IdInt i) (IdUuid t) = True"
| "id_less (IdUuid s) (IdInt j) = False"
| "id_less (IdUuid s) (IdUuid t) = str_less s t"

text \<open>
  The calls of the gateway. \<open>fault\<close> says which calls the instance fails (network
  down, authentication refused, interrupt) and with what; \<open>journal\<close> lists the
  writing calls that were carried out, in order. A function that returns \<open>Inl e\<close>
  has raised \<open>e\<close>.
\<close>

datatype gcall =
    Scroll string "point_id option"
  | Count string pyval
  | GetCollection string
  | CreateCollection string
  | DeleteCollection string
  | Upsert string point

record db =
  collections :: "string \<rightharpoonup> point list"
  remote :: bool
  fault :: "gcall \<Rightarrow> exn option"
  journal :: "gcall list"

text \<open>
  What the client library raises for a collection that does not exist: the HTTP status 404
  from a server, a \<open>ValueError\<close> from the in-process (local) implementation.
\<close>

definition not_found :: "db \<Rightarrow> string \<Rightarrow> exn" where
  "not_found d cname =
     (if remote d then UnexpectedResponse 404
      else ValueError (''Collection '' @ cname @ '' not found''))"

definition already_exists :: "db \<Rightarrow> string \<Rightarrow> exn" where
  "already_exists d cname =
     (if remote d then UnexpectedResponse 409
      else ValueError (''Collection '' @ cname @ '' already exists''))"

text \<open>\<^verbatim>\<open>models.FieldCondition(key=k, match=models.MatchValue(value=v))\<close>\<close>

definition matches :: "string \<times> pyval \<Rightarrow> point \<Rightarrow> bool" where
  "matches flt p = (map_of (payload p) (fst flt) = Some (snd flt))"

text \<open>\<open>with_payload\<close>: \<open>True\<close> (here \<open>None\<close>) keeps the payload, a list of keys projects it.\<close>

definition select_payload :: "string list option \<Rightarrow> point \<Rightarrow> point" where
  "select_payload with_payload p =
     (case with_payload of
        None \<Rightarrow> p
      | Some keys \<Rightarrow> p\<lparr>payload := filter (\<lambda>kv. fst kv \<in> set keys) (payload p)\<rparr>)"

definition scroll ::
  "db \<Rightarrow> string \<Rightarrow> string list option \<Rightarrow> string \<times> pyval \<Rightarrow> nat \<Rightarrow> point_id option
   \<Rightarrow> exn + (point list \<times> point_id option)" where
  "scroll d cname with_payload flt limit offset =
     (case fault d (Scroll cname offset) of
        Some e \<Rightarrow> Inl e
      | None \<Rightarrow>
         (case collections d cname of
            None \<Rightarrow> Inl (not_found d cname)
          | Some pts \<Rightarrow>
             (let ms = filter (\<lambda>p. matches flt p \<and>
                                 (case offset of None \<Rightarrow> True
                                  | Some off \<Rightarrow> \<not> id_less (pid p) off)) pts
              in Inr (map (select_payload with_payload) (take limit ms),
                      if limit < length ms then Some (pid (ms ! limit)) else None))))"

definition count :: "db \<Rightarrow> string \<Rightarrow> string \<times> pyval \<Rightarrow> exn + nat" where
  "count d cname flt =
     (case fault d (Count cname (snd flt)) of
        Some e \<Rightarrow> Inl e
      | None \<Rightarrow>
         (case collections d cname of
            None \<Rightarrow> Inl (not_found d cname)
          | Some pts \<Rightarrow> Inr (length (filter (matches flt) pts))))"

definition get_collection :: "db \<Rightarrow> string \<Rightarrow> exn + point list" where
  "get_collection d cname =
     (case fault d (GetCollection cname) of
        Some e \<Rightarrow> Inl e
      | None \<Rightarrow>
         (case collections d cname of
            None \<Rightarrow> Inl (not_found d cname)
          | Some pts \<Rightarrow> Inr pts))"

definition create_collection :: "db \<Rightarrow> string \<Rightarrow> exn + db" where
  "create_collection d cname =
     (case fault d (CreateCollection cname) of
        Some e \<Rightarrow> Inl e
      | None \<Rightarrow>
         (case collections d cname of
            Some pts \<Rightarrow> Inl (already_exists d cname)
          | None \<Rightarrow>
             Inr (d\<lparr>collections := (collections d)(cname \<mapsto> []),
                    journal := journal d @ [CreateCollection cname]\<rparr>)))"

text \<open>Deleting a collection that does not exist is not an error: the call returns false.\<close>

definition delete_collection :: "db \<Rightarrow> string \<Rightarrow> exn + db" where
  "delete_collection d cname =
     (case fault d (DeleteCollection cname) of
        Some e \<Rightarrow> Inl e
      | None \<Rightarrow>
         Inr (d\<lparr>collections := (collections d)(cname := None),
                journal := journal d @ [DeleteCollection cname]\<rparr>))"

text \<open>
  An upsert replaces the point that has the same id, or puts the new point at its place in
  the order of ids.
\<close>

fun upsert_point :: "point \<Rightarrow> point list \<Rightarrow> point list" where
  "upsert_point p [] = [p]"
| "upsert_point p (q # qs) =
     (if pid q = pid p then p # qs
      else if id_less (pid p) (pid q) then p # q # qs
      else q # upsert_point p qs)"

definition upsert :: "db \<Rightarrow> string \<Rightarrow> point \<Rightarrow> exn + db" where
  "upsert d cname p =
     (case fault d (Upsert cname p) of
        Some e \<Rightarrow> Inl e
      | None \<Rightarrow>
         (case collections d cname of
            None \<Rightarrow> Inl (not_found d cname)
          | Some pts \<Rightarrow>
             Inr (d\<lparr>collections := (collections d)(cname \<mapsto> upsert_point p pts),
                    journal := journal d @ [Upsert cname p]\<rparr>)))"

section \<open>The client (\<open>qdrant_client.py\<close>, class \<open>QdrantClient\<close>)\<close>

text \<open>
  What is read of a \<open>Schema\<close>: the keys of \<open>schema.tables\<close> in their order, the
  resource that each table belongs to, the names of the three system tables, and the values
  written to the version record (\<open>to_json\<close> is \<^verbatim>\<open>json.dumps(schema.to_dict())\<close>).
\<close>

record schema =
  name :: string
  tables :: "string list"
  table_resource :: "(string \<times> string) list"
  version :: int
  ENGINE_VERSION :: int
  stored_version_hash :: string
  version_hash :: string
  version_table_name :: string
  loads_table_name :: string
  state_table_name :: string
  to_json :: string

text \<open>
  The client: its schema, \<open>dataset_name\<close> (the property
  \<^verbatim>\<open>config.normalize_dataset_name(schema)\<close>), the separator, the naming convention
  \<open>schema.naming.normalize_identifier\<close>, the three property lists that \<open>__init__\<close>
  computes, the outcome of the base class's \<open>update_stored_schema\<close> (which verifies the
  schema and may raise), and the field names of the tuples \<open>StorageSchemaInfo\<close> and
  \<open>StateInfo\<close> of \<open>dlt.destinations.job_client_impl\<close>.
\<close>

record client =
  schema :: schema
  dataset_name :: string
  dataset_separator :: string
  normalize_identifier :: "string \<Rightarrow> string"
  version_collection_properties :: "string list"
  loads_collection_properties :: "string list"
  pipeline_state_properties :: "string list"
  base_update_stored_schema :: "exn option"
  storage_schema_info_fields :: "string list"
  state_info_fields :: "string list"

text \<open>
  The clock: \<open>precise_time()\<close> in seconds since the epoch, a Python \<open>float\<close>
  (a finite IEEE 754 double, kept as the real number it denotes),
  \<^verbatim>\<open>str(pendulum.now())\<close> and \<^verbatim>\<open>str(pendulum.now().isoformat())\<close>.
\<close>

record clock =
  precise_time :: real
  now_str :: string
  now_isoformat :: string

definition sentinel_collection :: "client \<Rightarrow> string" where
  "sentinel_collection c =
     (if dataset_name c \<noteq> [] then dataset_name c else ''DltSentinelCollection'')"

definition make_qualified_collection_name :: "client \<Rightarrow> string \<Rightarrow> string" where
  "make_qualified_collection_name c table_name =
     (if dataset_name c \<noteq> [] then dataset_name c @ dataset_separator c @ table_name
      else table_name)"

text \<open>
  Python's \<open>float\<close> arithmetic. The product of two floats is the exact product rounded
  to the nearest double, ties to the even significand. \<open>binade x\<close> is the exponent
  \<open>e\<close> with \<open>2^e \<le> |x| < 2^(e+1)\<close>; a double has 53 significant bits, so the doubles
  around \<open>x\<close> are the multiples of \<open>2^(e-52)\<close>, and of \<open>2^(-1074)\<close> below the normal
  range. A result of magnitude \<open>2^1024\<close> or more is infinite.
\<close>

definition binade :: "real \<Rightarrow> int" where
  "binade x =
     (if 1 \<le> \<bar>x\<bar> then bitlen \<lfloor>\<bar>x\<bar>\<rfloor> - 1 else - bitlen (\<lceil>1 / \<bar>x\<bar>\<rceil> - 1))"

definition round_half_even :: "real \<Rightarrow> int" where
  "round_half_even y =
     (let f = \<lfloor>y\<rfloor>; r = y - of_int f
      in if r < 1 / 2 then f else if 1 / 2 < r then f + 1 else if even f then f else f + 1)"

definition to_double :: "real \<Rightarrow> real" where
  "to_double x =
     (let e = max (binade x) (- 1022) - 52
      in of_int (round_half_even (x / 2 powi e)) * 2 powi e)"

text \<open>\<^verbatim>\<open>int(x)\<close> on a float truncates toward zero.\<close>

definition py_int :: "real \<Rightarrow> int" where
  "py_int x = (if 0 \<le> x then \<lfloor>x\<rfloor> else \<lceil>x\<rceil>)"

text \<open>
  \<^verbatim>\<open>2**64 - int(precise_time() * 10**6)\<close>: the integer \<open>10**6\<close> becomes the
  float \<open>1000000.0\<close>, the product is a float, \<open>int\<close> truncates it and the
  subtraction is on Python's unbounded integers. \<open>new_point_id t\<close> is the id for the
  reading \<open>t\<close> when the product is finite; \<open>int\<close> of an infinite float raises
  \<open>OverflowError\<close>.
\<close>

definition new_point_id :: "real \<Rightarrow> int" where
  "new_point_id t = 2 ^ 64 - py_int (to_double (t * 10 ^ 6))"

definition create_point_no_vector :: "clock \<Rightarrow> db \<Rightarrow> payload \<Rightarrow> string \<Rightarrow> exn + db" where
  "create_point_no_vector clk d obj collection_name =
     (if 2 ^ 1024 \<le> \<bar>to_double (precise_time clk * 10 ^ 6)\<bar> then Inl OverflowError
      else
        (let new_id = new_point_id (precise_time clk)
         in upsert d collection_name \<lparr>pid = IdInt new_id, payload = obj\<rparr>))"

text \<open>\<^verbatim>\<open>"not found" in str(e)\<close>\<close>

fun is_prefix :: "string \<Rightarrow> string \<Rightarrow> bool" where
  "is_prefix [] ys = True"
| "is_prefix (x # xs) [] = False"
| "is_prefix (x # xs) (y # ys) = (x = y \<and> is_prefix xs ys)"

fun contains :: "string \<Rightarrow> string \<Rightarrow> bool" where
  "contains s [] = is_prefix s []"
| "contains s (y # ys) = (is_prefix s (y # ys) \<or> contains s ys)"

definition collection_exists :: "client \<Rightarrow> db \<Rightarrow> string \<Rightarrow> bool \<Rightarrow> exn + bool" where
  "collection_exists c d table_name qualify_table_name =
     (let table_name' = (if qualify_table_name
                         then make_qualified_collection_name c table_name
                         else table_name)
      in case get_collection d table_name' of
           Inr _ \<Rightarrow> Inr True
         | Inl (ValueError msg) \<Rightarrow>
             if contains ''not found'' msg then Inr False else Inl (ValueError msg)
         | Inl (UnexpectedResponse status_code) \<Rightarrow>
             if status_code = 404 then Inr False else Inl (UnexpectedResponse status_code)
         | Inl e \<Rightarrow> Inl e)"

definition is_storage_initialized :: "client \<Rightarrow> db \<Rightarrow> exn + bool" where
  "is_storage_initialized c d = collection_exists c d (sentinel_collection c) False"

definition create_sentinel_collection :: "client \<Rightarrow> db \<Rightarrow> exn + db" where
  "create_sentinel_collection c d = create_collection d (sentinel_collection c)"

text \<open>The loop of \<open>initialize_storage\<close> over \<open>truncate_tables\<close>.\<close>

fun truncate_loop :: "client \<Rightarrow> db \<Rightarrow> string list \<Rightarrow> exn + db" where
  "truncate_loop c d [] = Inr d"
| "truncate_loop c d (table_name # rest) =
     (let qualified_table_name = make_qualified_collection_name c table_name
      in case collection_exists c d qualified_table_name True of
           Inl e \<Rightarrow> Inl e
         | Inr True \<Rightarrow> truncate_loop c d rest
         | Inr False \<Rightarrow>
            (case delete_collection d qualified_table_name of
               Inl e \<Rightarrow> Inl e
             | Inr d1 \<Rightarrow>
                (case create_collection d1 qualified_table_name of
                   Inl e \<Rightarrow> Inl e
                 | Inr d2 \<Rightarrow> truncate_loop c d2 rest)))"

text \<open>\<open>truncate_tables\<close> is \<open>None\<close> by default; \<open>None\<close> and the empty list are falsy.\<close>

definition initialize_storage :: "client \<Rightarrow> db \<Rightarrow> string list option \<Rightarrow> exn + db" where
  "initialize_storage c d truncate_tables =
     (case is_storage_initialized c d of
        Inl e \<Rightarrow> Inl e
      | Inr False \<Rightarrow> create_sentinel_collection c d
      | Inr True \<Rightarrow>
         (case truncate_tables of
            None \<Rightarrow> Inr d
          | Some ts \<Rightarrow> if ts \<noteq> [] then truncate_loop c d ts else Inr d))"


datatype state_info = StateInfo payload

definition new_tuple :: "string list \<Rightarrow> payload \<Rightarrow> exn + payload" where
  "new_tuple field_names kwargs =
     (if set (map fst kwargs) = set field_names then Inr kwargs else Inl TypeError)"

text \<open>\<^verbatim>\<open>except Exception: return None\<close>\<close>

definition except_Exception_return_None :: "exn \<Rightarrow> exn + 'a option" where
  "except_Exception_return_None e = (if is_Exception e then Inr None else Inl e)"




definition complete_load :: "client \<Rightarrow> clock \<Rightarrow> db \<Rightarrow> string \<Rightarrow> exn + db" where
  "complete_load c clk d load_id =
     (let vals = [PStr load_id, PStr (name (schema c)), PInt 0,
                    PStr (now_str clk), PStr (version_hash (schema c))]
      in if length vals \<noteq> length (loads_collection_properties c)
         then Inl AssertionError
         else
           (let properties = dict_zip (loads_collection_properties c) vals;
                loads_table_name' =
                  make_qualified_collection_name c (loads_table_name (schema c))
            in create_point_no_vector clk d properties loads_table_name'))"





text \<open>
  The \<open>for\<close> loop of \<open>get_stored_state\<close> over one page of state records:
  \<open>Inr (Some s)\<close> is \<^verbatim>\<open>return StateInfo(**state)\<close>, \<open>Inr None\<close> is the loop
  running to its end, \<open>Inl e\<close> an exception raised in the body.
\<close>

fun scan_state_records :: "client \<Rightarrow> db \<Rightarrow> point list \<Rightarrow> exn + state_info option" where
  "scan_state_records c d [] = Inr None"
| "scan_state_records c d (state_record # rest) =
     (let p_load_id = normalize_identifier c ''load_id'';
          p_dlt_load_id = normalize_identifier c ''_dlt_load_id'';
          state = payload state_record
      in case map_of state p_dlt_load_id of
           None \<Rightarrow> Inl (KeyError p_dlt_load_id)
         | Some load_id \<Rightarrow>
            (let scroll_table_name =
                   make_qualified_collection_name c (loads_table_name (schema c))
             in case count d scroll_table_name (p_load_id, load_id) of
                  Inl e \<Rightarrow> Inl e
                | Inr load_records \<Rightarrow>
                   if load_records > 0 then
                     (case new_tuple (state_info_fields c) state of
                        Inl e \<Rightarrow> Inl e
                      | Inr s \<Rightarrow> Inr (Some (StateInfo s)))
                   else scan_state_records c d rest))"

text \<open>
  The \<open>while True\<close> loop of \<open>get_stored_state\<close>, with \<open>offset\<close> as its state. The
  loop has no bound, so the function is partial: the outer \<open>None\<close> is a run that never
  returns, \<open>Some (Inr None)\<close> is \<^verbatim>\<open>return None\<close>.
\<close>

partial_function (option) get_stored_state_loop ::
  "client \<Rightarrow> db \<Rightarrow> string \<Rightarrow> point_id option \<Rightarrow> (exn + state_info option) option" where
  "get_stored_state_loop c d pipeline_name offset =
     (let p_pipeline_name = normalize_identifier c ''pipeline_name'';
          limit = 100;
          scroll_table_name =
            make_qualified_collection_name c (state_table_name (schema c))
      in case scroll d scroll_table_name (Some (pipeline_state_properties c))
                (p_pipeline_name, PStr pipeline_name) limit offset of
           Inl e \<Rightarrow> Some (except_Exception_return_None e)
         | Inr (state_records, offset') \<Rightarrow>
            if length state_records = 0 then Some (Inr None)
            else
              (case scan_state_records c d state_records of
                 Inl e \<Rightarrow> Some (except_Exception_return_None e)
               | Inr (Some s) \<Rightarrow> Some (Inr (Some s))
               | Inr None \<Rightarrow> get_stored_state_loop c d pipeline_name offset'))"

definition get_stored_state ::
  "client \<Rightarrow> db \<Rightarrow> string \<Rightarrow> (exn + state_info option) option" where
  "get_stored_state c d pipeline_name = get_stored_state_loop c d pipeline_name None"

section \<open>The drop command (\<open>dlt/pipeline/helpers.py\<close>, class \<open>DropCommand\<close>)\<close>

text \<open>
  The pipeline's state as the command sees it: the state of each resource, the rest of the
  source state by JSON path, and the marker of the last extraction of the state.
\<close>

record pipeline_state =
  resource_states :: "(string \<times> string) list"
  source_state :: "(string \<times> string) list"
  last_extracted :: "string option"

record pipeline =
  pipeline_name :: string
  pipelines_dir :: string
  default_schema_name :: "string option"
  schemas :: "string \<rightharpoonup> schema"
  state :: pipeline_state
  pending_packages :: "string list"

text \<open>
  The steps of the pipeline that the command runs. Their code is not among the sources and
  nothing is assumed of them: each is a parameter that maps the pipeline to the exception
  it raises, if any, and to the pipeline it leaves behind. \<open>bump_version\<close> is
  \<open>Schema._bump_version\<close>.
\<close>

record pipeline_env =
  pipeline_sync_destination :: "pipeline \<Rightarrow> exn option \<times> pipeline"
  pipeline_save_and_extract_state_and_schema ::
    "pipeline_state \<Rightarrow> schema \<Rightarrow> string list \<Rightarrow> pipeline \<Rightarrow> exn option \<times> pipeline"
  pipeline_normalize :: "pipeline \<Rightarrow> exn option \<times> pipeline"
  pipeline_load :: "pipeline \<Rightarrow> exn option \<times> pipeline"
  bump_version :: "schema \<Rightarrow> schema"

text \<open>The calls that the command makes on the pipeline, in the order it makes them.\<close>

datatype pcall =
    SyncDestination
  | SaveAndExtractStateAndSchema pipeline_state schema "string list"
  | Normalize
  | Load
  | DropPendingPackages
  | ManagedStateForceStateExtract
  | SaveSchema schema

text \<open>
  Modelled from the spec: \<open>Pipeline.has_pending_data\<close>,
  \<open>Pipeline.drop_pending_packages\<close>, \<open>force_state_extract\<close> of
  \<open>dlt.pipeline.state_sync\<close> and \<open>schemas.save_schema\<close> are not among the sources.
  The spec: the command "refuses to run while the pipeline has unflushed
  extracted/normalized data pending load"; on failure it "discards any pending extracted
  packages, forces a fresh state-extraction marker ... and restores the pre-drop schema
  file". A schema is stored under its name.
\<close>

definition has_pending_data :: "pipeline \<Rightarrow> bool" where
  "has_pending_data p = (pending_packages p \<noteq> [])"

definition drop_pending_packages :: "pipeline \<Rightarrow> pipeline" where
  "drop_pending_packages p = p\<lparr>pending_packages := []\<rparr>"

definition force_state_extract :: "pipeline_state \<Rightarrow> pipeline_state" where
  "force_state_extract st = st\<lparr>last_extracted := None\<rparr>"

definition save_schema :: "schema \<Rightarrow> pipeline \<Rightarrow> pipeline" where
  "save_schema sch p = p\<lparr>schemas := (schemas p)(name sch \<mapsto> sch)\<rparr>"

text \<open>\<^verbatim>\<open>with self.pipeline.managed_state() as state: force_state_extract(state)\<close>\<close>

definition managed_state_force_state_extract :: "pipeline \<Rightarrow> pipeline" where
  "managed_state_force_state_extract p = p\<lparr>state := force_state_extract (state p)\<rparr>"

record drop_info =
  info_tables :: "string list"
  info_state_paths :: "string list"
  info_resource_states :: "string list"

record drop_result =
  dr_state :: pipeline_state
  dr_info :: drop_info
  dr_schema :: schema
  dr_dropped_tables :: "string list"

text \<open>
  Modelled from the spec: \<open>drop_resources\<close> of \<open>dlt.pipeline.drop\<close> is not among
  the sources. The spec: "Planning phase (pure, no side effects): derive DropPlan: schema
  with target tables removed ..., state with target resource-state entries and JSON-paths
  removed, list of dropped table names, and a summary info object (tables, state_paths,
  resource_states ...)"; "state_only=true skips table drops entirely; drop_all=true
  supersedes an explicit resource list". Resources and paths are matched by name.
\<close>

definition drop_resources ::
  "schema \<Rightarrow> pipeline_state \<Rightarrow> string list \<Rightarrow> string list \<Rightarrow> bool \<Rightarrow> bool \<Rightarrow> drop_result" where
  "drop_resources sch st resources state_paths drop_all state_only =
     (let selected = (\<lambda>r. drop_all \<or> r \<in> set resources);
          tables_to_drop = map fst (filter (\<lambda>tr. selected (snd tr)) (table_resource sch));
          dropped = (if state_only then [] else tables_to_drop);
          dropped_states = map fst (filter (\<lambda>rs. selected (fst rs)) (resource_states st));
          dropped_paths = filter (\<lambda>p. p \<in> set (map fst (source_state st))) state_paths
      in \<lparr>dr_state =
             st\<lparr>resource_states := filter (\<lambda>rs. \<not> selected (fst rs)) (resource_states st),
                source_state := filter (\<lambda>pv. fst pv \<notin> set state_paths) (source_state st)\<rparr>,
           dr_info = \<lparr>info_tables = dropped, info_state_paths = dropped_paths,
                      info_resource_states = dropped_states\<rparr>,
           dr_schema =
             sch\<lparr>tables := filter (\<lambda>t. t \<notin> set dropped) (tables sch),
                 table_resource := filter (\<lambda>tr. fst tr \<notin> set dropped) (table_resource sch)\<rparr>,
           dr_dropped_tables = dropped\<rparr>)"

text \<open>
  The command: \<open>self.schema\<close> (the clone taken by \<open>__init__\<close>), the plan, and the two
  flags. \<open>self.pipeline\<close> is passed to each function.
\<close>

record drop_command =
  cmd_schema :: schema
  new_state :: pipeline_state
  info :: drop_info
  new_schema :: schema
  dropped_tables :: "string list"
  drop_tables :: bool
  drop_state :: bool

text \<open>
  \<^verbatim>\<open>schema_name or pipeline.default_schema_name\<close>: the default is taken for
  \<open>None\<close> and for the empty name.
\<close>

definition schema_key :: "string option \<Rightarrow> string \<Rightarrow> string" where
  "schema_key schema_name default_name =
     (case schema_name of
        None \<Rightarrow> default_name
      | Some n \<Rightarrow> if n \<noteq> [] then n else default_name)"

text \<open>
  \<open>DropCommand.__init__\<close>, with \<open>drop_resources\<close> as the parameter \<open>dr\<close>. A
  pipeline without a default schema name has never run; a name that the schema storage
  does not hold raises.
\<close>

definition DropCommand_init ::
  "(schema \<Rightarrow> pipeline_state \<Rightarrow> string list \<Rightarrow> string list \<Rightarrow> bool \<Rightarrow> bool \<Rightarrow> drop_result)
   \<Rightarrow> pipeline \<Rightarrow> string list \<Rightarrow> string option \<Rightarrow> string list \<Rightarrow> bool \<Rightarrow> bool
   \<Rightarrow> exn + drop_command" where
  "DropCommand_init dr p resources schema_name state_paths drop_all state_only =
     (case default_schema_name p of
        None \<Rightarrow> Inl (PipelineNeverRan (pipeline_name p) (pipelines_dir p))
      | Some default_name \<Rightarrow>
         if default_name = [] then Inl (PipelineNeverRan (pipeline_name p) (pipelines_dir p))
         else
           (case schemas p (schema_key schema_name default_name) of
              None \<Rightarrow> Inl (KeyError (schema_key schema_name default_name))
            | Some sch \<Rightarrow>
               (let drop_result = dr sch (state p) resources state_paths drop_all state_only
                in Inr \<lparr>cmd_schema = sch,
                        new_state = dr_state drop_result,
                        info = dr_info drop_result,
                        new_schema = dr_schema drop_result,
                        dropped_tables = dr_dropped_tables drop_result,
                        drop_tables = (\<not> state_only \<and> dr_dropped_tables drop_result \<noteq> []),
                        drop_state = (drop_all \<or> resources \<noteq> [] \<or> state_paths \<noteq> [])\<rparr>)))"

definition is_empty :: "drop_command \<Rightarrow> bool" where
  "is_empty cmd =
     (length (info_tables (info cmd)) = 0
      \<and> length (info_state_paths (info cmd)) = 0
      \<and> length (info_resource_states (info cmd)) = 0)"

text \<open>
  The handler of \<open>__call__\<close>: \<^verbatim>\<open>except Exception\<close> around the load, ending in
  \<^verbatim>\<open>raise\<close>. The result is the pipeline left behind and the calls made.
\<close>

definition on_load_failure :: "drop_command \<Rightarrow> pipeline \<Rightarrow> pipeline \<times> pcall list" where
  "on_load_failure cmd p =
     (let p1 = drop_pending_packages p;
          p2 = managed_state_force_state_extract p1;
          p3 = save_schema (cmd_schema cmd) p2
      in (p3, [DropPendingPackages, ManagedStateForceStateExtract, SaveSchema (cmd_schema cmd)]))"

text \<open>
  \<open>DropCommand.__call__\<close>: the exception raised (if any), the pipeline left behind and
  the calls made on the pipeline, in order.
\<close>

definition DropCommand_call ::
  "pipeline_env \<Rightarrow> drop_command \<Rightarrow> pipeline \<Rightarrow> exn option \<times> pipeline \<times> pcall list" where
  "DropCommand_call env cmd p =
     (if has_pending_data p
      then (Some (PipelineHasPendingDataException (pipeline_name p) (pipelines_dir p)), p, [])
      else
        (case pipeline_sync_destination env p of
           (Some e, p1) \<Rightarrow> (Some e, p1, [SyncDestination])
         | (None, p1) \<Rightarrow>
            if \<not> drop_state cmd \<and> \<not> drop_tables cmd then (None, p1, [SyncDestination])
            else
              (let new_schema' = bump_version env (new_schema cmd);
                   new_state' = force_state_extract (new_state cmd);
                   c2 = [SyncDestination,
                         SaveAndExtractStateAndSchema new_state' new_schema' (dropped_tables cmd)]
               in case pipeline_save_and_extract_state_and_schema env
                         new_state' new_schema' (dropped_tables cmd) p1 of
                    (Some e, p2) \<Rightarrow> (Some e, p2, c2)
                  | (None, p2) \<Rightarrow>
                     (case pipeline_normalize env p2 of
                        (Some e, p3) \<Rightarrow> (Some e, p3, c2 @ [Normalize])
                      | (None, p3) \<Rightarrow>
                         (case pipeline_load env p3 of
                            (None, p4) \<Rightarrow> (None, p4, c2 @ [Normalize, Load])
                          | (Some e, p4) \<Rightarrow>
                             if is_Exception e then
                               (case on_load_failure cmd p4 of
                                  (p5, cs) \<Rightarrow> (Some e, p5, c2 @ [Normalize, Load] @ cs))
                             else (Some e, p4, c2 @ [Normalize, Load]))))))"

text \<open>\<open>drop\<close>: build the command and call it.\<close>

definition drop ::
  "(schema \<Rightarrow> pipeline_state \<Rightarrow> string list \<Rightarrow> string list \<Rightarrow> bool \<Rightarrow> bool \<Rightarrow> drop_result)
   \<Rightarrow> pipeline_env \<Rightarrow> pipeline \<Rightarrow> string list \<Rightarrow> string option \<Rightarrow> string list \<Rightarrow> bool \<Rightarrow> bool
   \<Rightarrow> exn option \<times> pipeline \<times> pcall list" where
  "drop dr env p resources schema_name state_paths drop_all state_only =
     (case DropCommand_init dr p resources schema_name state_paths drop_all state_only of
        Inl e \<Rightarrow> (Some e, p, [])
      | Inr cmd \<Rightarrow> DropCommand_call env cmd p)"

section \<open>Concrete inputs\<close>

text \<open>
  A client for the dataset "ds" with the separator "_", the identity as naming convention
  and the system tables of dlt; a destination built from a list of collections.
\<close>

definition example_schema :: schema where
  "example_schema =
     \<lparr>name = ''s'', tables = [''users'', ''orders''],
      table_resource = [(''users'', ''users''), (''orders'', ''orders'')],
      version = 2, ENGINE_VERSION = 9,
      stored_version_hash = ''h2'', version_hash = ''h2'',
      version_table_name = ''ver'', loads_table_name = ''loads'',
      state_table_name = ''state'', to_json = ''{}''\<rparr>"

definition example_client :: client where
  "example_client =
     \<lparr>schema = example_schema, dataset_name = ''ds'', dataset_separator = ''_'',
      normalize_identifier = (\<lambda>s. s),
      version_collection_properties =
        [''version'', ''engine_version'', ''inserted_at'', ''schema_name'',
         ''version_hash'', ''schema''],
      loads_collection_properties =
        [''load_id'', ''schema_name'', ''status'', ''inserted_at'', ''schema_version_hash''],
      pipeline_state_properties =
        [''version'', ''engine_version'', ''pipeline_name'', ''state'', ''created_at'',
         ''_dlt_load_id''],
      base_update_stored_schema = None,
      storage_schema_info_fields =
        [''version'', ''engine_version'', ''inserted_at'', ''schema_name'',
         ''version_hash'', ''schema''],
      state_info_fields =
        [''version'', ''engine_version'', ''pipeline_name'', ''state'', ''created_at'',
         ''_dlt_load_id'']\<rparr>"

definition example_clock :: clock where
  "example_clock =
     \<lparr>precise_time = 1700000000, now_str = ''2023-11-14 22:13:20'',
      now_isoformat = ''2023-11-14T22:13:20''\<rparr>"

definition mk_db :: "(string \<times> point list) list \<Rightarrow> (gcall \<Rightarrow> exn option) \<Rightarrow> db" where
  "mk_db colls flt = \<lparr>collections = map_of colls, remote = False, fault = flt, journal = []\<rparr>"

text \<open>What is observed of a run on the destination: the journal and one collection.\<close>

definition journal_of :: "exn + db \<Rightarrow> exn + gcall list" where
  "journal_of r = (case r of Inl e \<Rightarrow> Inl e | Inr d \<Rightarrow> Inr (journal d))"

definition collection_of :: "exn + db \<Rightarrow> string \<Rightarrow> exn + point list option" where
  "collection_of r cname = (case r of Inl e \<Rightarrow> Inl e | Inr d \<Rightarrow> Inr (collections d cname))"

text \<open>
  A state record of the pipeline "p" that refers to the load "1", and a destination that
  holds it while its loads collection is empty: the load never completed.
\<close>

definition orphan_state_record :: point where
  "orphan_state_record =
     \<lparr>pid = IdUuid ''0a'',
      payload = [(''version'', PInt 1), (''engine_version'', PInt 4),
                 (''pipeline_name'', PStr ''p''), (''state'', PStr ''x''),
                 (''created_at'', PStr ''t''), (''_dlt_load_id'', PStr ''1'')]\<rparr>"

definition orphan_db :: db where
  "orphan_db = mk_db [(''ds_state'', [orphan_state_record]), (''ds_loads'', [])] (\<lambda>call. None)"

text \<open>
  A state is durable when its load id is counted at least once in the loads collection.
\<close>

definition durable :: "client \<Rightarrow> db \<Rightarrow> state_info \<Rightarrow> bool" where
  "durable c d si =
     (case si of StateInfo s \<Rightarrow>
        (case map_of s (normalize_identifier c ''_dlt_load_id'') of
           None \<Rightarrow> False
         | Some lid \<Rightarrow>
            (case count d (make_qualified_collection_name c (loads_table_name (schema c)))
                    (normalize_identifier c ''load_id'', lid) of
               Inl e \<Rightarrow> False
             | Inr n \<Rightarrow> 0 < n)))"







text \<open>
  A pipeline that has run, with the schema "s" and the state of two resources, and steps
  for it: the synchronisation restores the extraction marker from the destination, saving
  replaces the stored schema and the state and leaves a pending package, the load fails
  with a network error.
\<close>

definition example_pipeline :: pipeline where
  "example_pipeline =
     \<lparr>pipeline_name = ''p'', pipelines_dir = ''/tmp'', default_schema_name = Some ''s'',
      schemas = [''s'' \<mapsto> example_schema],
      state = \<lparr>resource_states = [(''users'', ''u1''), (''orders'', ''o1'')],
               source_state = [], last_extracted = Some ''e1''\<rparr>,
      pending_packages = []\<rparr>"

definition example_env :: pipeline_env where
  "example_env =
     \<lparr>pipeline_sync_destination =
        (\<lambda>p. (None, p\<lparr>state := (state p)\<lparr>last_extracted := Some ''e2''\<rparr>\<rparr>)),
      pipeline_save_and_extract_state_and_schema =
        (\<lambda>st sch dropped p.
           (None, p\<lparr>schemas := (schemas p)(name sch \<mapsto> sch), state := st,
                     pending_packages := pending_packages p @ [''package'']\<rparr>)),
      pipeline_normalize = (\<lambda>p. (None, p)),
      pipeline_load = (\<lambda>p. (Some ResponseHandlingException, p)),
      bump_version = (\<lambda>sch. sch\<lparr>version := version sch + 1\<rparr>)\<rparr>"

text \<open>The same steps with a load that the user interrupts.\<close>

definition interrupted_env :: pipeline_env where
  "interrupted_env = example_env\<lparr>pipeline_load := (\<lambda>p. (Some KeyboardInterrupt, p))\<rparr>"
section \<open>Properties of the load job\<close>

lemma lookup_all_cong:
  "(\<forall>k\<in>set ks. d1 k = d2 k) \<Longrightarrow> lookup_all d1 ks = lookup_all d2 ks"
  by (induction ks) (auto split: option.splits sum.splits)

lemma lookup_all_present:
  "set ks \<subseteq> dom d \<Longrightarrow> lookup_all d ks = Inr (map (\<lambda>k. the (d k)) ks)"
  by (induction ks) (auto split: option.splits sum.splits)

lemma job_ids_random:
  "job_ids uuid5 str uuid4 [] c lines n =
     Inr (map (\<lambda>i. IdUuid (uuid4 i)) [n..<n + length lines], n + length lines)"
proof (induction lines arbitrary: n)
  case Nil
  then show ?case by simp
next
  case (Cons d ds)
  have "n < n + Suc (length ds)" by simp
  then have "[n..<n + Suc (length ds)] = n # [Suc n..<n + Suc (length ds)]"
    by (rule upt_conv_Cons)
  with Cons [of "Suc n"] show ?case by simp
qed

lemma job_ids_deterministic:
  "ids \<noteq> [] \<Longrightarrow> \<forall>d\<in>set lines. set ids \<subseteq> dom d \<Longrightarrow>
   job_ids uuid5 str uuid4 ids c lines n =
     Inr (map (\<lambda>d. IdUuid (uuid5 NAMESPACE_DNS
                 (c @ join ''_'' (map (\<lambda>k. str (the (d k))) ids)))) lines, n)"
  by (induction lines) (simp_all add: generate_uuid_def lookup_all_present comp_def)

text \<open>
  Claim C4. The identifier columns of a load job are the primary-key columns when the
  write disposition is "merge" and the table has primary-key columns, and the columns
  flagged "unique" otherwise. When that list is empty, every record of the file gets the
  next draw of \<open>uuid4\<close> (a random UUID that does not depend on the record); when it is
  not empty (and the records have the identifier columns), every record gets the
  deterministic id and no random draw is made.
\<close>

theorem unique_identifiers_choice:
  "list_unique_identifiers t =
     (if write_disposition t = Some ''merge''
         \<and> get_columns_names_with_prop t ''primary_key'' \<noteq> []
      then get_columns_names_with_prop t ''primary_key''
      else get_columns_names_with_prop t ''unique'')
   \<and> (list_unique_identifiers t = [] \<longrightarrow>
        job_ids uuid5 str uuid4 (list_unique_identifiers t) c lines n =
          Inr (map (\<lambda>i. IdUuid (uuid4 i)) [n..<n + length lines], n + length lines))
   \<and> (list_unique_identifiers t \<noteq> []
        \<and> (\<forall>d\<in>set lines. set (list_unique_identifiers t) \<subseteq> dom d) \<longrightarrow>
        job_ids uuid5 str uuid4 (list_unique_identifiers t) c lines n =
          Inr (map (\<lambda>d. IdUuid (uuid5 NAMESPACE_DNS
                 (c @ join ''_'' (map (\<lambda>k. str (the (d k))) (list_unique_identifiers t)))))
                 lines, n))"
proof (intro conjI impI)
  show "list_unique_identifiers t =
     (if write_disposition t = Some ''merge''
         \<and> get_columns_names_with_prop t ''primary_key'' \<noteq> []
      then get_columns_names_with_prop t ''primary_key''
      else get_columns_names_with_prop t ''unique'')"
    by (simp add: list_unique_identifiers_def Let_def)
next
  assume "list_unique_identifiers t = []"
  then show "job_ids uuid5 str uuid4 (list_unique_identifiers t) c lines n =
          Inr (map (\<lambda>i. IdUuid (uuid4 i)) [n..<n + length lines], n + length lines)"
    by (simp add: job_ids_random)
next
  assume "list_unique_identifiers t \<noteq> []
        \<and> (\<forall>d\<in>set lines. set (list_unique_identifiers t) \<subseteq> dom d)"
  then show "job_ids uuid5 str uuid4 (list_unique_identifiers t) c lines n =
          Inr (map (\<lambda>d. IdUuid (uuid5 NAMESPACE_DNS
                 (c @ join ''_'' (map (\<lambda>k. str (the (d k))) (list_unique_identifiers t)))))
                 lines, n)"
    using job_ids_deterministic by blast
qed

theorem unique_identifiers_choice_witness:
  "list_unique_identifiers
     \<lparr>write_disposition = Some ''merge'',
      columns = [\<lparr>col_name = ''id'', col_props = [''primary_key'']\<rparr>,
                 \<lparr>col_name = ''email'', col_props = [''unique'']\<rparr>]\<rparr> = [''id'']
   \<and> job_ids (\<lambda>ns n. n) py_str (\<lambda>i. replicate i CHR ''r'')
       (list_unique_identifiers
         \<lparr>write_disposition = Some ''merge'',
          columns = [\<lparr>col_name = ''id'', col_props = [''primary_key'']\<rparr>,
                     \<lparr>col_name = ''email'', col_props = [''unique'']\<rparr>]\<rparr>)
       ''users'' [[''id'' \<mapsto> PStr ''7'', ''email'' \<mapsto> PStr ''a@b'']] 0
     = Inr ([IdUuid ''users7''], 0)
   \<and> list_unique_identifiers
       \<lparr>write_disposition = Some ''append'',
        columns = [\<lparr>col_name = ''id'', col_props = [''primary_key'']\<rparr>]\<rparr> = []
   \<and> job_ids (\<lambda>ns n. n) py_str (\<lambda>i. replicate i CHR ''r'')
       (list_unique_identifiers
         \<lparr>write_disposition = Some ''append'',
          columns = [\<lparr>col_name = ''id'', col_props = [''primary_key'']\<rparr>]\<rparr>)
       ''users'' [[''id'' \<mapsto> PStr ''7''], [''id'' \<mapsto> PStr ''7'']] 0
     = Inr ([IdUuid [], IdUuid ''r''], 2)"
proof -
  let ?t1 = "\<lparr>write_disposition = Some ''merge'',
      columns = [\<lparr>col_name = ''id'', col_props = [''primary_key'']\<rparr>,
                 \<lparr>col_name = ''email'', col_props = [''unique'']\<rparr>]\<rparr>"
  let ?t2 = "\<lparr>write_disposition = Some ''append'',
        columns = [\<lparr>col_name = ''id'', col_props = [''primary_key'']\<rparr>]\<rparr>"
  let ?l1 = "[[''id'' \<mapsto> PStr ''7'', ''email'' \<mapsto> PStr ''a@b'']]"
  let ?l2 = "[[''id'' \<mapsto> PStr ''7''], [''id'' \<mapsto> PStr ''7'']]"
  have u1: "list_unique_identifiers ?t1 = [''id'']"
    by (simp add: list_unique_identifiers_def get_columns_names_with_prop_def)
  have u2: "list_unique_identifiers ?t2 = []"
    by (simp add: list_unique_identifiers_def get_columns_names_with_prop_def)
  have h1: "list_unique_identifiers ?t1 \<noteq> []
            \<and> (\<forall>d\<in>set ?l1. set (list_unique_identifiers ?t1) \<subseteq> dom d)"
    by (simp add: u1)
  have "job_ids (\<lambda>ns n. n) py_str (\<lambda>i. replicate i CHR ''r'')
              (list_unique_identifiers ?t1) ''users'' ?l1 0
         = Inr (map (\<lambda>d. IdUuid (''users'' @ join ''_''
                  (map (\<lambda>k. py_str (the (d k))) (list_unique_identifiers ?t1)))) ?l1, 0)"
    using unique_identifiers_choice
            [of ?t1 "\<lambda>ns n. n" py_str "\<lambda>i. replicate i CHR ''r''" "''users''" ?l1 0] h1
    by blast
  then have r1: "job_ids (\<lambda>ns n. n) py_str (\<lambda>i. replicate i CHR ''r'')
              (list_unique_identifiers ?t1) ''users'' ?l1 0 = Inr ([IdUuid ''users7''], 0)"
    by (simp add: u1)
  have "job_ids (\<lambda>ns n. n) py_str (\<lambda>i. replicate i CHR ''r'')
              (list_unique_identifiers ?t2) ''users'' ?l2 0
            = Inr (map (\<lambda>i. IdUuid (replicate i CHR ''r'')) [0..<0 + length ?l2],
                   0 + length ?l2)"
    using unique_identifiers_choice
            [of ?t2 "\<lambda>ns n. n" py_str "\<lambda>i. replicate i CHR ''r''" "''users''" ?l2 0] u2
    by blast
  then have r2: "job_ids (\<lambda>ns n. n) py_str (\<lambda>i. replicate i CHR ''r'')
              (list_unique_identifiers ?t2) ''users'' ?l2 0
            = Inr ([IdUuid [], IdUuid ''r''], 2)"
    by (simp add: upt_rec)
  from u1 r1 u2 r2 show ?thesis by blast
qed

text \<open>
  Claim C5. The deterministic id is \<open>uuid5\<close> of the DNS namespace and of the collection
  name followed by the stringified values of the identifier columns joined with "_". Two
  records with equal values in the identifier columns get the same id in the same
  collection (a missing column raises \<open>KeyError\<close> for both), and the id depends on the
  record only through the identifier columns.
\<close>

theorem generate_uuid_deterministic:
  "((\<forall>k\<in>set ids. d1 k = d2 k) \<longrightarrow>
     generate_uuid uuid5 str d1 ids c = generate_uuid uuid5 str d2 ids c)
   \<and> generate_uuid uuid5 str d ids c = generate_uuid uuid5 str (d |` set ids) ids c
   \<and> (set ids \<subseteq> dom d \<longrightarrow>
     generate_uuid uuid5 str d ids c =
       Inr (uuid5 NAMESPACE_DNS (c @ join ''_'' (map (\<lambda>k. str (the (d k))) ids))))"
proof (intro conjI impI)
  assume "\<forall>k\<in>set ids. d1 k = d2 k"
  then have "lookup_all d1 ids = lookup_all d2 ids"
    by (rule lookup_all_cong)
  then show "generate_uuid uuid5 str d1 ids c = generate_uuid uuid5 str d2 ids c"
    by (simp add: generate_uuid_def)
next
  have "lookup_all d ids = lookup_all (d |` set ids) ids"
    by (rule lookup_all_cong) simp
  then show "generate_uuid uuid5 str d ids c = generate_uuid uuid5 str (d |` set ids) ids c"
    by (simp add: generate_uuid_def)
next
  assume "set ids \<subseteq> dom d"
  then show "generate_uuid uuid5 str d ids c =
       Inr (uuid5 NAMESPACE_DNS (c @ join ''_'' (map (\<lambda>k. str (the (d k))) ids)))"
    by (simp add: generate_uuid_def lookup_all_present comp_def)
qed

theorem generate_uuid_deterministic_witness:
  "generate_uuid (\<lambda>ns n. ns @ '':'' @ n) py_str
      [''id'' \<mapsto> PInt 1, ''user'' \<mapsto> PStr ''u'', ''name'' \<mapsto> PStr ''a'']
      [''id'', ''user''] ''users''
   = generate_uuid (\<lambda>ns n. ns @ '':'' @ n) py_str
      [''id'' \<mapsto> PInt 1, ''user'' \<mapsto> PStr ''u'', ''name'' \<mapsto> PStr ''b'']
      [''id'', ''user''] ''users''
   \<and> generate_uuid (\<lambda>ns n. ns @ '':'' @ n) py_str
      [''id'' \<mapsto> PInt 1, ''user'' \<mapsto> PStr ''u'', ''name'' \<mapsto> PStr ''a'']
      [''id'', ''user''] ''users''
     = Inr (NAMESPACE_DNS @ '':users1_u'')"
proof -
  let ?d1 = "[''id'' \<mapsto> PInt 1, ''user'' \<mapsto> PStr ''u'', ''name'' \<mapsto> PStr ''a'']"
  let ?d2 = "[''id'' \<mapsto> PInt 1, ''user'' \<mapsto> PStr ''u'', ''name'' \<mapsto> PStr ''b'']"
  have eq: "\<forall>k\<in>set [''id'', ''user'']. ?d1 k = ?d2 k" by simp
  have dm: "set [''id'', ''user''] \<subseteq> dom ?d1" by simp
  have one: "str_nat (Suc 0) = ''1''" by code_simp
  note inst = generate_uuid_deterministic
               [of "[''id'', ''user'']" ?d1 ?d2 "\<lambda>ns n. ns @ '':'' @ n" py_str "''users''" ?d1]
  from inst eq have a: "generate_uuid (\<lambda>ns n. ns @ '':'' @ n) py_str ?d1 [''id'', ''user''] ''users''
      = generate_uuid (\<lambda>ns n. ns @ '':'' @ n) py_str ?d2 [''id'', ''user''] ''users''"
    by blast
  from inst dm have "generate_uuid (\<lambda>ns n. ns @ '':'' @ n) py_str ?d1 [''id'', ''user''] ''users''
      = Inr (NAMESPACE_DNS @ '':'' @ (''users'' @ join ''_''
               (map (\<lambda>k. py_str (the (?d1 k))) [''id'', ''user''])))"
    by blast
  then have b: "generate_uuid (\<lambda>ns n. ns @ '':'' @ n) py_str ?d1 [''id'', ''user''] ''users''
      = Inr (NAMESPACE_DNS @ '':users1_u'')"
    by (simp add: one)
  from a b show ?thesis by blast
qed

section \<open>Properties of the retry classifier\<close>

text \<open>
  Claim C7. The predicate returned by \<open>retry_load\<close> is false for a
  \<open>PipelineStepFailed\<close> whose step is not in the allow-list, false for an exception
  that is terminal or whose \<open>__context__\<close> is terminal, and true for every other
  exception. The default allow-list is \<open>("load",)\<close>: with it the predicate is false for
  a \<open>PipelineStepFailed\<close> of any step but "load" (a failure of the step "normalize"
  is never retried, whatever its kind and context), and a failure of the step "load"
  that is neither terminal nor caused by a terminal exception is retried.
\<close>

theorem retry_load_characterisation:
  "retry_load steps ex =
     (\<not> (\<exists>s. cls ex = PipelineStepFailed s \<and> s \<notin> set steps)
      \<and> \<not> terminal ex
      \<and> \<not> (\<exists>c. exc_context ex = Some c \<and> terminal c))
   \<and> default_retry_on_pipeline_steps = [''load'']
   \<and> retry_load default_retry_on_pipeline_steps ex =
       (\<not> (\<exists>s. cls ex = PipelineStepFailed s \<and> s \<noteq> ''load'')
        \<and> \<not> terminal ex
        \<and> \<not> (\<exists>c. exc_context ex = Some c \<and> terminal c))
   \<and> retry_load default_retry_on_pipeline_steps
        (PyExc (PipelineStepFailed ''normalize'') t ctx) = False
   \<and> retry_load default_retry_on_pipeline_steps
        (PyExc (PipelineStepFailed ''load'') False None) = True"
  by (cases ex)
     (auto simp: retry_load_def default_retry_on_pipeline_steps_def
           split: exc_class.splits option.splits)

theorem retry_load_characterisation_witness:
  "retry_load [''load''] (PyExc (PipelineStepFailed ''load'') False None) = True
   \<and> retry_load [''load''] (PyExc (PipelineStepFailed ''extract'') False None) = False
   \<and> retry_load [''load'']
        (PyExc (PipelineStepFailed ''load'') False (Some (PyExc OtherException True None)))
      = False
   \<and> retry_load [''load'', ''normalize'']
        (PyExc (PipelineStepFailed ''normalize'') False None) = True
   \<and> retry_load default_retry_on_pipeline_steps
        (PyExc (PipelineStepFailed ''normalize'') False None) = False
   \<and> retry_load default_retry_on_pipeline_steps
        (PyExc (PipelineStepFailed ''load'') False None) = True
   \<and> retry_load default_retry_on_pipeline_steps (PyExc OtherException False None) = True
   \<and> retry_load default_retry_on_pipeline_steps (PyExc OtherException True None) = False"
proof -
  note c1 = retry_load_characterisation
      [of "[''load'']" "PyExc (PipelineStepFailed ''load'') False None" False None,
       THEN conjunct1]
  note c2 = retry_load_characterisation
      [of "[''load'']" "PyExc (PipelineStepFailed ''extract'') False None" False None,
       THEN conjunct1]
  note c3 = retry_load_characterisation
      [of "[''load'']"
          "PyExc (PipelineStepFailed ''load'') False (Some (PyExc OtherException True None))"
          False None, THEN conjunct1]
  note c4 = retry_load_characterisation
      [of "[''load'', ''normalize'']" "PyExc (PipelineStepFailed ''normalize'') False None"
          False None, THEN conjunct1]
  note d1 = retry_load_characterisation
      [of "[]" "PyExc OtherException False None" False None,
       THEN conjunct2, THEN conjunct2]
  note d2 = retry_load_characterisation
      [of "[]" "PyExc OtherException True None" False None,
       THEN conjunct2, THEN conjunct2, THEN conjunct1]
  have r1: "retry_load [''load''] (PyExc (PipelineStepFailed ''load'') False None) = True"
    using c1 by simp
  have r2: "retry_load [''load''] (PyExc (PipelineStepFailed ''extract'') False None) = False"
    using c2 by simp
  have r3: "retry_load [''load'']
        (PyExc (PipelineStepFailed ''load'') False (Some (PyExc OtherException True None)))
      = False"
    using c3 by simp
  have r4: "retry_load [''load'', ''normalize'']
        (PyExc (PipelineStepFailed ''normalize'') False None) = True"
    using c4 by simp
  from d1 have r5: "retry_load default_retry_on_pipeline_steps
        (PyExc (PipelineStepFailed ''normalize'') False None) = False"
    and r6: "retry_load default_retry_on_pipeline_steps
        (PyExc (PipelineStepFailed ''load'') False None) = True"
    by blast+
  from d1 have r7: "retry_load default_retry_on_pipeline_steps (PyExc OtherException False None)
                    = True"
    by simp
  from d2 have r8: "retry_load default_retry_on_pipeline_steps (PyExc OtherException True None)
                    = False"
    by simp
  from r1 r2 r3 r4 r5 r6 r7 r8 show ?thesis
    by blast
qed

section \<open>Properties of the synthetic point ids\<close>

lemma round_half_even_le: "of_int (round_half_even y) \<le> y + 1 / 2"
  unfolding round_half_even_def Let_def by (auto; linarith)

lemma round_half_even_ge_floor: "\<lfloor>y\<rfloor> \<le> round_half_even y"
  unfolding round_half_even_def Let_def by auto

lemma round_half_even_le_ceiling: "round_half_even y \<le> \<lceil>y\<rceil>"
  unfolding round_half_even_def Let_def by (auto; linarith)

lemma round_half_even_ge_even:
  assumes "even K" and "of_int K - 1 / 2 \<le> y"
  shows "K \<le> round_half_even y"
proof (cases "of_int K \<le> y")
  case True
  then have "K \<le> \<lfloor>y\<rfloor>" by (simp add: le_floor_iff)
  with round_half_even_ge_floor [of y] show ?thesis by linarith
next
  case False
  with assms(2) have f: "\<lfloor>y\<rfloor> = K - 1"
    by (intro floor_unique) auto
  with assms(1) have odd: "odd \<lfloor>y\<rfloor>" by simp
  from f assms(2) have "1 / 2 \<le> y - of_int \<lfloor>y\<rfloor>" by simp
  with odd f show ?thesis
    unfolding round_half_even_def Let_def by auto
qed

lemma bitlen_mono: "x \<le> y \<Longrightarrow> bitlen x \<le> bitlen y"
  by (simp add: bitlen_def floorlog_mono nat_mono)

lemma binade_nonneg: "1 \<le> x \<Longrightarrow> 0 \<le> binade x"
proof -
  assume x: "1 \<le> x"
  then have "1 \<le> \<lfloor>x\<rfloor>" by (simp add: le_floor_iff)
  then have "1 \<le> bitlen \<lfloor>x\<rfloor>" by (simp add: bitlen_ge_iff_power)
  with x show ?thesis by (simp add: binade_def)
qed

lemma binade_less:
  assumes "1 \<le> x" and "x < 2 ^ w"
  shows "binade x < int w"
proof -
  from assms(2) have "\<lfloor>x\<rfloor> < 2 ^ w" by (simp add: floor_less_iff)
  then have "bitlen \<lfloor>x\<rfloor> \<le> int w" by (simp add: bitlen_le_iff_power)
  with assms(1) show ?thesis by (simp add: binade_def)
qed

lemma binade_mono:
  assumes "1 \<le> x" and "x \<le> y"
  shows "binade x \<le> binade y"
proof -
  from assms have "\<lfloor>x\<rfloor> \<le> \<lfloor>y\<rfloor>" by (simp add: floor_mono)
  then have "bitlen \<lfloor>x\<rfloor> \<le> bitlen \<lfloor>y\<rfloor>" by (rule bitlen_mono)
  with assms show ?thesis by (simp add: binade_def)
qed

lemma to_double_below_2_53:
  assumes "1 \<le> x" and "x < 2 ^ 53"
  shows "to_double x = of_int (round_half_even (x * 2 ^ nat (52 - binade x)))
                         / 2 ^ nat (52 - binade x)"
proof -
  from assms(1) have nn: "0 \<le> binade x" by (rule binade_nonneg)
  from binade_less [OF assms] have le: "binade x \<le> 52" by simp
  define m where "m = nat (52 - binade x)"
  from le have e: "binade x - 52 = - int m" by (simp add: m_def)
  from nn have mx: "max (binade x) (- 1022) = binade x" by simp
  have p: "(2::real) powi (- int m) = 1 / 2 ^ m"
    by (simp add: power_int_minus_divide)
  show ?thesis
    unfolding to_double_def Let_def mx e p m_def [symmetric] by simp
qed

lemma to_double_ge_of_int:
  assumes "1 \<le> x" and "x < 2 ^ 53" and "of_int k \<le> x"
  shows "real_of_int k \<le> to_double x"
proof -
  define m where "m = nat (52 - binade x)"
  from assms(3) have "of_int (k * 2 ^ m) \<le> x * 2 ^ m" by simp
  then have "k * 2 ^ m \<le> \<lfloor>x * 2 ^ m\<rfloor>" by (simp only: le_floor_iff)
  with round_half_even_ge_floor [of "x * 2 ^ m"]
  have "k * 2 ^ m \<le> round_half_even (x * 2 ^ m)" by linarith
  then have "real_of_int (k * 2 ^ m) \<le> of_int (round_half_even (x * 2 ^ m))"
    by (simp only: of_int_le_iff)
  then have "real_of_int k \<le> of_int (round_half_even (x * 2 ^ m)) / 2 ^ m"
    by (simp add: pos_le_divide_eq)
  then show ?thesis
    by (simp add: to_double_below_2_53 [OF assms(1,2)] m_def)
qed

lemma to_double_le_of_int:
  assumes "1 \<le> x" and "x < 2 ^ 53" and "x \<le> of_int k"
  shows "to_double x \<le> of_int k"
proof -
  define m where "m = nat (52 - binade x)"
  from assms(3) have "x * 2 ^ m \<le> of_int (k * 2 ^ m)" by simp
  then have "\<lceil>x * 2 ^ m\<rceil> \<le> k * 2 ^ m" by (simp only: ceiling_le_iff)
  with round_half_even_le_ceiling [of "x * 2 ^ m"]
  have "round_half_even (x * 2 ^ m) \<le> k * 2 ^ m" by linarith
  then have "real_of_int (round_half_even (x * 2 ^ m)) \<le> of_int (k * 2 ^ m)"
    by (simp only: of_int_le_iff)
  then have "of_int (round_half_even (x * 2 ^ m)) / 2 ^ m \<le> real_of_int k"
    by (simp add: pos_divide_le_eq)
  then show ?thesis
    by (simp add: to_double_below_2_53 [OF assms(1,2)] m_def)
qed

lemma to_double_of_int:
  assumes "1 \<le> k" and "k < 2 ^ 53"
  shows "to_double (of_int k) = of_int k"
proof -
  from assms(1) have a: "(1::real) \<le> of_int k"
    by simp
  from assms(2) have "real_of_int k < real_of_int (2 ^ 53)"
    by (simp only: of_int_less_iff)
  then have b: "real_of_int k < 2 ^ 53"
    by simp
  from to_double_ge_of_int [OF a b, of k] to_double_le_of_int [OF a b, of k]
  show ?thesis by simp
qed

lemma floor_to_double_strict:
  assumes a: "1 \<le> a" and ab: "a + 1 \<le> b" and b: "b < 2 ^ 52"
  shows "\<lfloor>to_double a\<rfloor> < \<lfloor>to_double b\<rfloor>"
proof -
  from a ab have b1: "1 \<le> b" and aleb: "a \<le> b" by simp_all
  from b have b53: "b < 2 ^ 53" by simp
  from aleb b53 have a53: "a < 2 ^ 53" by simp
  define ma where "ma = nat (52 - binade a)"
  define mb where "mb = nat (52 - binade b)"
  define n where "n = \<lfloor>to_double a\<rfloor>"
  from binade_less [OF b1 b] have "binade b \<le> 51" by simp
  then have mb1: "1 \<le> mb" by (simp add: mb_def)
  from binade_mono [OF a aleb] have mab: "mb \<le> ma" by (simp add: ma_def mb_def)
  have da: "to_double a = of_int (round_half_even (a * 2 ^ ma)) / 2 ^ ma"
    by (simp add: to_double_below_2_53 [OF a a53] ma_def)
  have db: "to_double b = of_int (round_half_even (b * 2 ^ mb)) / 2 ^ mb"
    by (simp add: to_double_below_2_53 [OF b1 b53] mb_def)
  have "of_int n \<le> to_double a" by (simp add: n_def)
  then have "real_of_int n * 2 ^ ma \<le> of_int (round_half_even (a * 2 ^ ma))"
    by (simp add: da pos_le_divide_eq)
  also have "\<dots> \<le> a * 2 ^ ma + 1 / 2" by (rule round_half_even_le)
  finally have "real_of_int n \<le> a + (1 / 2) / 2 ^ ma"
    by (simp add: field_simps)
  moreover have "(1 / 2) / (2::real) ^ ma \<le> (1 / 2) / 2 ^ mb"
    using mab by (simp add: frac_le power_increasing)
  ultimately have "real_of_int n + 1 \<le> b + (1 / 2) / 2 ^ mb"
    using ab by linarith
  then have "(real_of_int n + 1) * 2 ^ mb \<le> b * 2 ^ mb + 1 / 2"
    by (simp add: field_simps)
  then have y: "of_int ((n + 1) * 2 ^ mb) - 1 / 2 \<le> b * 2 ^ mb"
    by simp
  from mb1 have ev: "even ((n + 1) * 2 ^ mb)" by simp
  from round_half_even_ge_even [OF ev y]
  have "real_of_int ((n + 1) * 2 ^ mb) \<le> of_int (round_half_even (b * 2 ^ mb))"
    by (simp only: of_int_le_iff)
  then have "real_of_int (n + 1) \<le> to_double b"
    by (simp add: db pos_le_divide_eq)
  then have "n + 1 \<le> \<lfloor>to_double b\<rfloor>" by (simp only: le_floor_iff)
  then show ?thesis by (simp add: n_def)
qed

lemma binade_eqI:
  assumes "2 ^ k \<le> x" and "x < 2 ^ Suc k"
  shows "binade x = int k"
proof -
  have "(1::real) \<le> 2 ^ k" by simp
  with assms(1) have x1: "1 \<le> x" by linarith
  from assms(1) have "real_of_int (2 ^ k) \<le> x" by simp
  then have "2 ^ k \<le> \<lfloor>x\<rfloor>" by (simp only: le_floor_iff)
  then have "2 ^ (nat (int (Suc k)) - 1) \<le> \<lfloor>x\<rfloor>" by (simp only: nat_int diff_Suc_1)
  with bitlen_ge_iff_power [of "int (Suc k)" "\<lfloor>x\<rfloor>"]
  have lo: "int (Suc k) \<le> bitlen \<lfloor>x\<rfloor>" by blast
  from assms(2) have "x < real_of_int (2 ^ Suc k)" by simp
  then have "\<lfloor>x\<rfloor> < 2 ^ Suc k" by (simp only: floor_less_iff)
  then have "\<lfloor>x\<rfloor> < 2 ^ nat (int (Suc k))" by (simp only: nat_int)
  with bitlen_le_iff_power [of "\<lfloor>x\<rfloor>" "int (Suc k)"]
  have hi: "bitlen \<lfloor>x\<rfloor> \<le> int (Suc k)" by simp
  from lo hi x1 show ?thesis by (simp add: binade_def)
qed

lemma to_double_eval:
  assumes "2 ^ k \<le> x" and "x < 2 ^ Suc k"
  shows "to_double x = of_int (round_half_even (x / 2 powi (int k - 52))) * 2 powi (int k - 52)"
proof -
  from binade_eqI [OF assms] have "max (binade x) (- 1022) = int k" by simp
  then show ?thesis by (simp add: to_double_def Let_def)
qed

lemma to_double_bounds:
  assumes "1 \<le> x" and "x < 2 ^ 53"
  shows "of_int \<lfloor>x\<rfloor> \<le> to_double x" and "to_double x \<le> of_int \<lfloor>x\<rfloor> + 1"
proof -
  show "of_int \<lfloor>x\<rfloor> \<le> to_double x"
    by (rule to_double_ge_of_int [OF assms]) simp
  have "to_double x \<le> of_int (\<lfloor>x\<rfloor> + 1)"
    by (rule to_double_le_of_int [OF assms]) (simp add: less_imp_le)
  then show "to_double x \<le> of_int \<lfloor>x\<rfloor> + 1" by simp
qed

lemma new_point_id_bounds:
  assumes "1 \<le> t" and "t * 10 ^ 6 < 2 ^ 53"
  shows "2 ^ 64 - \<lfloor>t * 10 ^ 6\<rfloor> - 1 \<le> new_point_id t"
    and "new_point_id t \<le> 2 ^ 64 - \<lfloor>t * 10 ^ 6\<rfloor>"
proof -
  from assms(1) have p1: "1 \<le> t * 10 ^ 6" by simp
  note b = to_double_bounds [OF p1 assms(2)]
  from p1 have "0 \<le> \<lfloor>t * 10 ^ 6\<rfloor>"
    by simp
  then have "(0::real) \<le> of_int \<lfloor>t * 10 ^ 6\<rfloor>"
    by simp
  with b(1) have nn: "0 \<le> to_double (t * 10 ^ 6)"
    by linarith
  from b(1) have lo: "\<lfloor>t * 10 ^ 6\<rfloor> \<le> \<lfloor>to_double (t * 10 ^ 6)\<rfloor>"
    by (simp only: le_floor_iff)
  from b(2) have "to_double (t * 10 ^ 6) \<le> of_int (\<lfloor>t * 10 ^ 6\<rfloor> + 1)" by simp
  then have hi: "\<lfloor>to_double (t * 10 ^ 6)\<rfloor> \<le> \<lfloor>t * 10 ^ 6\<rfloor> + 1"
    by (metis floor_mono floor_of_int)
  from nn lo hi show "2 ^ 64 - \<lfloor>t * 10 ^ 6\<rfloor> - 1 \<le> new_point_id t"
    and "new_point_id t \<le> 2 ^ 64 - \<lfloor>t * 10 ^ 6\<rfloor>"
    by (simp_all add: new_point_id_def py_int_def)
qed

lemma new_point_id_less:
  assumes "1 \<le> t1" and "t1 + 1 / 10 ^ 6 \<le> t2" and "t2 * 10 ^ 6 < 2 ^ 52"
  shows "new_point_id t2 < new_point_id t1"
proof -
  from assms(1) have a: "1 \<le> t1 * 10 ^ 6" by simp
  from assms(2) have ab: "t1 * 10 ^ 6 + 1 \<le> t2 * 10 ^ 6" by (simp add: field_simps)
  from a ab have b1: "1 \<le> t2 * 10 ^ 6" by linarith
  from assms(3) have b53: "t2 * 10 ^ 6 < 2 ^ 53" by simp
  from ab b53 have a53: "t1 * 10 ^ 6 < 2 ^ 53" by linarith
  from to_double_ge_of_int [OF a a53, of 0] a have na: "0 \<le> to_double (t1 * 10 ^ 6)"
    by simp
  from to_double_ge_of_int [OF b1 b53, of 0] b1 have nb: "0 \<le> to_double (t2 * 10 ^ 6)"
    by simp
  from floor_to_double_strict [OF a ab assms(3)] na nb show ?thesis
    by (simp add: new_point_id_def py_int_def)
qed

lemma no_overflow_below_2_53:
  assumes "1 \<le> t" and "t * 10 ^ 6 < 2 ^ 53"
  shows "\<not> 2 ^ 1024 \<le> \<bar>to_double (t * 10 ^ 6)\<bar>"
proof -
  from assms(1) have p1: "1 \<le> t * 10 ^ 6" by simp
  from to_double_ge_of_int [OF p1 assms(2), of 0] p1 have nn: "0 \<le> to_double (t * 10 ^ 6)"
    by simp
  have "to_double (t * 10 ^ 6) \<le> of_int (2 ^ 53)"
    by (rule to_double_le_of_int [OF p1 assms(2)]) (use assms(2) in simp)
  then have "to_double (t * 10 ^ 6) \<le> 2 ^ 53" by simp
  moreover have "(2::real) ^ 53 < 2 ^ 1024" by simp
  ultimately show ?thesis using nn by linarith
qed

lemma upsert_point_smallest:
  "\<forall>q\<in>set pts. id_less (pid p) (pid q) \<and> pid q \<noteq> pid p \<Longrightarrow> upsert_point p pts = p # pts"
  by (cases pts) simp_all

text \<open>
  Claim C9, as the code has it. The id of a record inserted by
  \<open>_create_point_no_vector\<close> is \<open>2^64\<close> minus the truncated product of the clock
  reading and \<open>10^6\<close>, a product of doubles: \<open>2^64\<close> minus the time in whole
  microseconds, or one less when the product rounds up to the next integer. For readings
  from one second after the epoch whose product stays below \<open>2^52\<close>, of two insertions
  at least one microsecond apart the later one has the strictly smaller id. Hence, in a
  collection whose points were all inserted this way at least a microsecond earlier, the
  record just inserted is the first of an ascending scan: a scroll with limit 1 and a
  filter that the record matches returns it.
\<close>

theorem point_ids_decrease_with_time:
  "(1 \<le> t1 \<and> t1 + 1 / 10 ^ 6 \<le> t2 \<and> t2 * 10 ^ 6 < 2 ^ 52 \<longrightarrow>
      new_point_id t2 < new_point_id t1
      \<and> 2 ^ 64 - \<lfloor>t1 * 10 ^ 6\<rfloor> - 1 \<le> new_point_id t1
      \<and> new_point_id t1 \<le> 2 ^ 64 - \<lfloor>t1 * 10 ^ 6\<rfloor>)
   \<and> (collections d cname = Some pts
       \<and> fault d (Upsert cname \<lparr>pid = IdInt (new_point_id (precise_time clk)),
                                payload = obj\<rparr>) = None
       \<and> fault d (Scroll cname None) = None
       \<and> 1 \<le> precise_time clk \<and> precise_time clk * 10 ^ 6 < 2 ^ 52
       \<and> (\<forall>q\<in>set pts. \<exists>t'. 1 \<le> t' \<and> t' + 1 / 10 ^ 6 \<le> precise_time clk
                               \<and> pid q = IdInt (new_point_id t'))
       \<and> matches flt \<lparr>pid = IdInt (new_point_id (precise_time clk)), payload = obj\<rparr>
       \<longrightarrow> (\<exists>d' off. create_point_no_vector clk d obj cname = Inr d'
              \<and> scroll d' cname None flt 1 None =
                  Inr ([\<lparr>pid = IdInt (new_point_id (precise_time clk)), payload = obj\<rparr>],
                       off)))"
proof (intro conjI impI)
  assume h: "1 \<le> t1 \<and> t1 + 1 / 10 ^ 6 \<le> t2 \<and> t2 * 10 ^ 6 < 2 ^ 52"
  then show "new_point_id t2 < new_point_id t1"
    by (intro new_point_id_less) simp_all
  from h have t1: "1 \<le> t1"
    by simp
  from h have p53: "t1 * 10 ^ 6 < 2 ^ 53"
    by (simp add: field_simps)
  show "2 ^ 64 - \<lfloor>t1 * 10 ^ 6\<rfloor> - 1 \<le> new_point_id t1"
    by (rule new_point_id_bounds(1) [OF t1 p53])
  show "new_point_id t1 \<le> 2 ^ 64 - \<lfloor>t1 * 10 ^ 6\<rfloor>"
    by (rule new_point_id_bounds(2) [OF t1 p53])
next
  let ?p = "\<lparr>pid = IdInt (new_point_id (precise_time clk)), payload = obj\<rparr>"
  assume h: "collections d cname = Some pts
       \<and> fault d (Upsert cname ?p) = None
       \<and> fault d (Scroll cname None) = None
       \<and> 1 \<le> precise_time clk \<and> precise_time clk * 10 ^ 6 < 2 ^ 52
       \<and> (\<forall>q\<in>set pts. \<exists>t'. 1 \<le> t' \<and> t' + 1 / 10 ^ 6 \<le> precise_time clk
                               \<and> pid q = IdInt (new_point_id t'))
       \<and> matches flt ?p"
  then have c1: "1 \<le> precise_time clk" and c52: "precise_time clk * 10 ^ 6 < 2 ^ 52"
    by simp_all
  from c52 have c53: "precise_time clk * 10 ^ 6 < 2 ^ 53"
    by simp
  have fin: "\<not> 2 ^ 1024 \<le> \<bar>to_double (precise_time clk * 10 ^ 6)\<bar>"
    by (rule no_overflow_below_2_53 [OF c1 c53])
  have "\<forall>q\<in>set pts. id_less (pid ?p) (pid q) \<and> pid q \<noteq> pid ?p"
  proof
    fix q assume "q \<in> set pts"
    with h obtain t' where t': "1 \<le> t'" "t' + 1 / 10 ^ 6 \<le> precise_time clk"
        "pid q = IdInt (new_point_id t')"
      by blast
    from t'(1,2) c52 have "new_point_id (precise_time clk) < new_point_id t'"
      by (rule new_point_id_less)
    with t'(3) show "id_less (pid ?p) (pid q) \<and> pid q \<noteq> pid ?p"
      by simp
  qed
  then have ins: "upsert_point ?p pts = ?p # pts"
    by (rule upsert_point_smallest)
  let ?d' = "d\<lparr>collections := (collections d)(cname \<mapsto> ?p # pts),
               journal := journal d @ [Upsert cname ?p]\<rparr>"
  from h ins fin have c: "create_point_no_vector clk d obj cname = Inr ?d'"
    by (simp add: create_point_no_vector_def upsert_def Let_def)
  from h have s: "scroll ?d' cname None flt 1 None =
      Inr ([?p], if 1 < length (filter (matches flt) (?p # pts))
                 then Some (pid (filter (matches flt) (?p # pts) ! 1)) else None)"
    by (simp add: scroll_def select_payload_def Let_def)
  from c s show "\<exists>d' off. create_point_no_vector clk d obj cname = Inr d'
              \<and> scroll d' cname None flt 1 None = Inr ([?p], off)"
    by blast
qed

lemma new_point_id_1700000000: "new_point_id 1700000000 = 18445044073709551616"
proof -
  have "to_double (of_int 1700000000000000) = of_int 1700000000000000"
    by (rule to_double_of_int) simp_all
  then have "to_double 1700000000000000 = 1700000000000000"
    by simp
  then show ?thesis
    by (simp add: new_point_id_def py_int_def)
qed

lemma new_point_id_1699999999: "new_point_id 1699999999 = 18445044073710551616"
proof -
  have "to_double (of_int 1699999999000000) = of_int 1699999999000000"
    by (rule to_double_of_int) simp_all
  then have "to_double 1699999999000000 = 1699999999000000"
    by simp
  then show ?thesis
    by (simp add: new_point_id_def py_int_def)
qed

lemma new_point_id_next: "new_point_id (1700000000 + 1 / 2 ^ 19) = 18445044073709551614"
proof -
  have "to_double ((1700000000 + 1 / 2 ^ 19) * 10 ^ 6)
        = of_int (round_half_even ((1700000000 + 1 / 2 ^ 19) * 10 ^ 6 / 2 powi (int 50 - 52)))
          * 2 powi (int 50 - 52)"
    by (rule to_double_eval) simp_all
  also have "\<dots> = 1700000000000002"
    by (simp add: round_half_even_def Let_def power_int_minus_divide)
  finally show ?thesis
    by (simp add: new_point_id_def py_int_def)
qed

lemma new_point_id_rounded_up:
  "new_point_id (7481576792091351 / 2 ^ 22) = 18444960326801341970"
proof -
  have "to_double (7481576792091351 / 2 ^ 22 * 10 ^ 6)
        = of_int (round_half_even (7481576792091351 / 2 ^ 22 * 10 ^ 6 / 2 powi (int 50 - 52)))
          * 2 powi (int 50 - 52)"
    by (rule to_double_eval) simp_all
  also have "\<dots> = 1783746908209646"
    by (simp add: round_half_even_def Let_def power_int_minus_divide)
  finally show ?thesis
    by (simp add: new_point_id_def py_int_def)
qed

theorem point_ids_decrease_with_time_witness:
  "new_point_id 1700000000 = 18445044073709551616
   \<and> new_point_id (7481576792091351 / 2 ^ 22) = 18444960326801341970
   \<and> 2 ^ 64 - \<lfloor>7481576792091351 / 2 ^ 22 * 10 ^ 6 :: real\<rfloor> = 18444960326801341971
   \<and> new_point_id (1700000000 + 1 / 2 ^ 19) = 18445044073709551614
   \<and> new_point_id (1700000000 + 1 / 2 ^ 19) < new_point_id 1700000000
   \<and> (\<exists>d' off.
        create_point_no_vector example_clock
          (mk_db [(''ds_ver'', [\<lparr>pid = IdInt (new_point_id 1699999999),
                                  payload = [(''schema_name'', PStr ''s''),
                                             (''version_hash'', PStr ''h1'')]\<rparr>])]
                 (\<lambda>call. None))
          [(''schema_name'', PStr ''s''), (''version_hash'', PStr ''h2'')] ''ds_ver'' = Inr d'
        \<and> scroll d' ''ds_ver'' None (''schema_name'', PStr ''s'') 1 None =
            Inr ([\<lparr>pid = IdInt (new_point_id 1700000000),
                    payload = [(''schema_name'', PStr ''s''),
                               (''version_hash'', PStr ''h2'')]\<rparr>], off))"
proof -
  let ?old = "\<lparr>pid = IdInt (new_point_id 1699999999),
               payload = [(''schema_name'', PStr ''s''), (''version_hash'', PStr ''h1'')]\<rparr>"
  let ?obj = "[(''schema_name'', PStr ''s''), (''version_hash'', PStr ''h2'')]"
  let ?d = "mk_db [(''ds_ver'', [?old])] (\<lambda>call. None)"
  have a: "(1::real) \<le> 1700000000 \<and> (1700000000::real) + 1 / 10 ^ 6 \<le> 1700000000 + 1 / 2 ^ 19
           \<and> ((1700000000::real) + 1 / 2 ^ 19) * 10 ^ 6 < 2 ^ 52"
    by simp
  have pt: "precise_time example_clock = 1700000000"
    by (simp add: example_clock_def)
  have earlier: "\<exists>t'::real. 1 \<le> t' \<and> t' + 1 / 1000000 \<le> 1700000000
                   \<and> new_point_id 1699999999 = new_point_id t'"
    by (rule exI [of _ 1699999999]) simp
  have b: "collections ?d ''ds_ver'' = Some [?old]
       \<and> fault ?d (Upsert ''ds_ver'' \<lparr>pid = IdInt (new_point_id (precise_time example_clock)),
                                payload = ?obj\<rparr>) = None
       \<and> fault ?d (Scroll ''ds_ver'' None) = None
       \<and> 1 \<le> precise_time example_clock \<and> precise_time example_clock * 10 ^ 6 < 2 ^ 52
       \<and> (\<forall>q\<in>set [?old]. \<exists>t'. 1 \<le> t' \<and> t' + 1 / 10 ^ 6 \<le> precise_time example_clock
                               \<and> pid q = IdInt (new_point_id t'))
       \<and> matches (''schema_name'', PStr ''s'')
            \<lparr>pid = IdInt (new_point_id (precise_time example_clock)), payload = ?obj\<rparr>"
    using earlier by (auto simp: mk_db_def pt matches_def)
  note inst = point_ids_decrease_with_time
      [of 1700000000 "1700000000 + 1 / 2 ^ 19" ?d "''ds_ver''" "[?old]" example_clock ?obj
          "(''schema_name'', PStr ''s'')"]
  from inst a have lt: "new_point_id (1700000000 + 1 / 2 ^ 19) < new_point_id 1700000000"
    by blast
  from inst b have "\<exists>d' off. create_point_no_vector example_clock ?d ?obj ''ds_ver'' = Inr d'
      \<and> scroll d' ''ds_ver'' None (''schema_name'', PStr ''s'') 1 None =
          Inr ([\<lparr>pid = IdInt (new_point_id (precise_time example_clock)), payload = ?obj\<rparr>],
               off)"
    by blast
  then have sc: "\<exists>d' off. create_point_no_vector example_clock ?d ?obj ''ds_ver'' = Inr d'
      \<and> scroll d' ''ds_ver'' None (''schema_name'', PStr ''s'') 1 None =
          Inr ([\<lparr>pid = IdInt (new_point_id 1700000000), payload = ?obj\<rparr>], off)"
    by (simp add: pt)
  have fl: "2 ^ 64 - \<lfloor>7481576792091351 / 2 ^ 22 * 10 ^ 6 :: real\<rfloor> = 18444960326801341971"
    by simp
  from new_point_id_1700000000 new_point_id_rounded_up fl new_point_id_next lt sc
  show ?thesis by blast
qed

text \<open>
  The claim as the spec states it fails. The two readings below are doubles, the second
  the next double after the first and more than a microsecond later (in the year 2288);
  their products with \<open>10^6\<close> lie above \<open>2^53\<close>, where the doubles are the even
  integers, and both round to the same one: the two insertions get the same id, so the
  second does not get a smaller one.
\<close>

theorem point_ids_collide_counterexample:
  "to_double (1316988844383843 / 2 ^ 17) = 1316988844383843 / 2 ^ 17
   \<and> to_double (5267955377535373 / 2 ^ 19) = 5267955377535373 / 2 ^ 19
   \<and> (1316988844383843 / 2 ^ 17 :: real) + 1 / 10 ^ 6 < 5267955377535373 / 2 ^ 19
   \<and> new_point_id (1316988844383843 / 2 ^ 17) = 18436696246222492266
   \<and> new_point_id (5267955377535373 / 2 ^ 19) = 18436696246222492266
   \<and> \<not> new_point_id (5267955377535373 / 2 ^ 19) < new_point_id (1316988844383843 / 2 ^ 17)"
proof -
  let ?t1 = "1316988844383843 / 2 ^ 17 :: real"
  let ?t2 = "5267955377535373 / 2 ^ 19 :: real"
  have "to_double ?t1 = of_int (round_half_even (?t1 / 2 powi (int 33 - 52)))
                          * 2 powi (int 33 - 52)"
    by (rule to_double_eval) simp_all
  also have "\<dots> = ?t1"
    by (simp add: round_half_even_def Let_def power_int_minus_divide)
  finally have d1: "to_double ?t1 = ?t1" .
  have "to_double ?t2 = of_int (round_half_even (?t2 / 2 powi (int 33 - 52)))
                          * 2 powi (int 33 - 52)"
    by (rule to_double_eval) simp_all
  also have "\<dots> = ?t2"
    by (simp add: round_half_even_def Let_def power_int_minus_divide)
  finally have d2: "to_double ?t2 = ?t2" .
  have gap: "?t1 + 1 / 10 ^ 6 < ?t2"
    by simp
  have "to_double (?t1 * 10 ^ 6) = of_int (round_half_even (?t1 * 10 ^ 6 / 2 powi (int 53 - 52)))
                          * 2 powi (int 53 - 52)"
    by (rule to_double_eval) simp_all
  also have "\<dots> = 10047827487059350"
    by (simp add: round_half_even_def Let_def)
  finally have i1: "new_point_id ?t1 = 18436696246222492266"
    by (simp add: new_point_id_def py_int_def)
  have "to_double (?t2 * 10 ^ 6) = of_int (round_half_even (?t2 * 10 ^ 6 / 2 powi (int 53 - 52)))
                          * 2 powi (int 53 - 52)"
    by (rule to_double_eval) simp_all
  also have "\<dots> = 10047827487059350"
    by (simp add: round_half_even_def Let_def)
  finally have i2: "new_point_id ?t2 = 18436696246222492266"
    by (simp add: new_point_id_def py_int_def)
  from d1 d2 gap i1 i2 show ?thesis
    by simp
qed

section \<open>Properties of the schema lookup\<close>

lemma except_Exception_caught [simp]:
  "is_Exception e \<Longrightarrow> except_Exception_return_None e = Inr None"
  by (simp add: except_Exception_return_None_def)

lemma except_Exception_passed [simp]:
  "\<not> is_Exception e \<Longrightarrow> except_Exception_return_None e = Inl e"
  by (simp add: except_Exception_return_None_def)



lemma is_Exception_not_found [simp]: "is_Exception (not_found d cname)"
  by (simp add: not_found_def)




section \<open>Properties of the state lookup\<close>

text \<open>
  A state that \<open>get_stored_state\<close> returns is durable: its load id was counted at least
  once in the loads collection.
\<close>

lemma scan_state_records_durable:
  "scan_state_records c d recs = Inr (Some si) \<Longrightarrow> durable c d si"
proof (induction recs)
  case Nil
  then show ?case by simp
next
  case (Cons r rs)
  let ?key = "normalize_identifier c ''_dlt_load_id''"
  let ?loads = "make_qualified_collection_name c (loads_table_name (schema c))"
  show ?case
  proof (cases "map_of (payload r) ?key")
    case None
    with Cons.prems show ?thesis by (simp add: Let_def)
  next
    case (Some lid)
    show ?thesis
    proof (cases "count d ?loads (normalize_identifier c ''load_id'', lid)")
      case (Inl e)
      with Some Cons.prems show ?thesis by (simp add: Let_def)
    next
      case (Inr n)
      show ?thesis
      proof (cases "0 < n")
        case True
        with Some Inr Cons.prems have "si = StateInfo (payload r)"
          by (simp add: Let_def new_tuple_def split: if_splits)
        with Some Inr True show ?thesis
          by (simp add: durable_def)
      next
        case False
        with Some Inr Cons.prems have "scan_state_records c d rs = Inr (Some si)"
          by (simp add: Let_def)
        then show ?thesis by (rule Cons.IH)
      qed
    qed
  qed
qed

lemma get_stored_state_loop_durable:
  assumes "get_stored_state_loop c d pn offset = Some y"
  shows "\<forall>si. y = Inr (Some si) \<longrightarrow> durable c d si"
proof (rule get_stored_state_loop.raw_induct
         [where P = "\<lambda>c d pn offset y. \<forall>si. y = Inr (Some si) \<longrightarrow> durable c d si",
          OF _ assms])
  fix loop :: "client \<Rightarrow> db \<Rightarrow> string \<Rightarrow> point_id option
               \<Rightarrow> (exn + state_info option) option"
  fix c d pn offset y
  assume IH: "\<And>c d pn offset y. loop c d pn offset = Some y \<Longrightarrow>
                \<forall>si. y = Inr (Some si) \<longrightarrow> durable c d si"
  assume body: "(let p_pipeline_name = normalize_identifier c ''pipeline_name'';
          limit = 100;
          scroll_table_name =
            make_qualified_collection_name c (state_table_name (schema c))
      in case scroll d scroll_table_name (Some (pipeline_state_properties c))
                (p_pipeline_name, PStr pn) limit offset of
           Inl e \<Rightarrow> Some (except_Exception_return_None e)
         | Inr (state_records, offset') \<Rightarrow>
            if length state_records = 0 then Some (Inr None)
            else
              (case scan_state_records c d state_records of
                 Inl e \<Rightarrow> Some (except_Exception_return_None e)
               | Inr None \<Rightarrow> loop c d pn offset'
               | Inr (Some s) \<Rightarrow> Some (Inr (Some s)))) = Some y"
  show "\<forall>si. y = Inr (Some si) \<longrightarrow> durable c d si"
  proof (intro allI impI)
    fix si assume y: "y = Inr (Some si)"
    from body y show "durable c d si"
      by (auto simp: Let_def except_Exception_return_None_def
               split: sum.splits prod.splits if_splits option.splits
               dest: scan_state_records_durable IH)
  qed
qed

lemma get_stored_state_durable:
  "get_stored_state c d pn = Some (Inr (Some si)) \<Longrightarrow> durable c d si"
  using get_stored_state_loop_durable [of c d pn None "Inr (Some si)"]
  by (simp add: get_stored_state_def)

text \<open>
  When the page read at \<open>offset = None\<close> is not empty, is the last one (the next offset
  is \<open>None\<close>) and holds no durable candidate, the loop starts over with the same offset:
  the function never returns.
\<close>

lemma get_stored_state_loop_last_page:
  assumes page: "scroll d (make_qualified_collection_name c (state_table_name (schema c)))
                   (Some (pipeline_state_properties c))
                   (normalize_identifier c ''pipeline_name'', PStr pn) 100 None
                 = Inr (recs, None)"
      and nonempty: "recs \<noteq> []"
      and none_durable: "scan_state_records c d recs = Inr None"
  shows "get_stored_state_loop c d pn None = None"
proof (rule ccontr)
  assume "get_stored_state_loop c d pn None \<noteq> None"
  then obtain y where y: "get_stored_state_loop c d pn None = Some y"
    by auto
  have "\<not> (c = c \<and> d = d \<and> pn = pn \<and> (None :: point_id option) = None)"
  proof (rule get_stored_state_loop.raw_induct
           [where P = "\<lambda>c' d' pn' off' y'. \<not> (c' = c \<and> d' = d \<and> pn' = pn \<and> off' = None)",
            OF _ y])
    fix loop :: "client \<Rightarrow> db \<Rightarrow> string \<Rightarrow> point_id option
                 \<Rightarrow> (exn + state_info option) option"
    fix c' d' pn' off' y'
    assume IH: "\<And>c' d' pn' off' y'. loop c' d' pn' off' = Some y' \<Longrightarrow>
                  \<not> (c' = c \<and> d' = d \<and> pn' = pn \<and> off' = None)"
    assume body: "(let p_pipeline_name = normalize_identifier c' ''pipeline_name'';
          limit = 100;
          scroll_table_name =
            make_qualified_collection_name c' (state_table_name (schema c'))
      in case scroll d' scroll_table_name (Some (pipeline_state_properties c'))
                (p_pipeline_name, PStr pn') limit off' of
           Inl e \<Rightarrow> Some (except_Exception_return_None e)
         | Inr (state_records, offset') \<Rightarrow>
            if length state_records = 0 then Some (Inr None)
            else
              (case scan_state_records c' d' state_records of
                 Inl e \<Rightarrow> Some (except_Exception_return_None e)
               | Inr None \<Rightarrow> loop c' d' pn' offset'
               | Inr (Some s) \<Rightarrow> Some (Inr (Some s)))) = Some y'"
    show "\<not> (c' = c \<and> d' = d \<and> pn' = pn \<and> off' = None)"
    proof
      assume eq: "c' = c \<and> d' = d \<and> pn' = pn \<and> off' = None"
      with body page nonempty none_durable have "loop c d pn None = Some y'"
        by (simp add: Let_def)
      then have "\<not> (c = c \<and> d = d \<and> pn = pn \<and> (None :: point_id option) = None)"
        by (rule IH)
      then show False by simp
    qed
  qed
  then show False by simp
qed

text \<open>
  Claim C1, at the failing input. The state collection holds one record of the pipeline
  "p" whose load has no record in the loads collection, and no call fails. The filtered
  scan is exhausted by its first page with no durable candidate; \<open>get_stored_state\<close>
  does not return \<open>None\<close>, it does not return at all (the value \<open>None\<close> of the partial
  function, where a return of \<open>None\<close> would be \<open>Some (Inr None)\<close>).
\<close>

theorem get_stored_state_orphan_never_returns:
  "get_stored_state example_client orphan_db ''p'' = None
   \<and> get_stored_state example_client orphan_db ''p'' \<noteq> Some (Inr None)"
proof -
  have q: "make_qualified_collection_name example_client
             (state_table_name (schema example_client)) = ''ds_state''"
    by (simp add: make_qualified_collection_name_def example_client_def example_schema_def)
  have n: "normalize_identifier example_client ''pipeline_name'' = ''pipeline_name''"
    by (simp add: example_client_def)
  have page: "scroll orphan_db ''ds_state'' (Some (pipeline_state_properties example_client))
     (''pipeline_name'', PStr ''p'') 100 None = Inr ([orphan_state_record], None)"
    by (simp add: scroll_def orphan_db_def mk_db_def orphan_state_record_def matches_def
                  select_payload_def example_client_def)
  have scan: "scan_state_records example_client orphan_db [orphan_state_record] = Inr None"
    by (simp add: orphan_db_def mk_db_def orphan_state_record_def example_client_def
                  example_schema_def make_qualified_collection_name_def count_def matches_def)
  have page': "scroll orphan_db
       (make_qualified_collection_name example_client (state_table_name (schema example_client)))
       (Some (pipeline_state_properties example_client))
       (normalize_identifier example_client ''pipeline_name'', PStr ''p'') 100 None
     = Inr ([orphan_state_record], None)"
    unfolding q n by (rule page)
  have "[orphan_state_record] \<noteq> []"
    by simp
  with page' have "get_stored_state_loop example_client orphan_db ''p'' None = None"
    using scan by (rule get_stored_state_loop_last_page)
  then show ?thesis
    by (simp add: get_stored_state_def)
qed

section \<open>Properties of \<open>initialize_storage\<close>\<close>

text \<open>
  Claim C10, at the failing input. The dataset is "ds", the storage is initialized (the
  sentinel collection "ds" exists) and the qualified collection "ds_users" of the table
  "users" exists and holds a point. \<open>initialize_storage\<close> passes the qualified name to
  \<open>_collection_exists\<close>, which qualifies it again and looks for "ds_ds_users"; that
  collection does not exist, so the existing collection "ds_users" is deleted and created
  anew, empty, instead of being skipped.
\<close>

theorem initialize_storage_double_qualification:
  "journal_of (initialize_storage example_client
      (mk_db [(''ds'', []),
              (''ds_users'', [\<lparr>pid = IdUuid ''0a'', payload = [(''id'', PInt 1)]\<rparr>])]
             (\<lambda>call. None))
      (Some [''users'']))
   = Inr [DeleteCollection ''ds_users'', CreateCollection ''ds_users'']
   \<and> collection_of (initialize_storage example_client
      (mk_db [(''ds'', []),
              (''ds_users'', [\<lparr>pid = IdUuid ''0a'', payload = [(''id'', PInt 1)]\<rparr>])]
             (\<lambda>call. None))
      (Some [''users''])) ''ds_users'' = Inr (Some [])"
  by (simp add: journal_of_def collection_of_def initialize_storage_def
        is_storage_initialized_def collection_exists_def sentinel_collection_def
        get_collection_def make_qualified_collection_name_def example_client_def mk_db_def
        not_found_def delete_collection_def create_collection_def Let_def)

section \<open>Properties of the schema synchronisation\<close>




















section \<open>Properties of the drop command\<close>

lemma DropCommand_init_empty:
  "DropCommand_init drop_resources p [] schema_name [] False False = Inr cmd \<Longrightarrow>
   is_empty cmd \<and> \<not> drop_state cmd \<and> \<not> drop_tables cmd"
  by (auto simp: DropCommand_init_def drop_resources_def is_empty_def Let_def
           split: option.splits if_splits)

lemma DropCommand_call_nothing_to_drop:
  "\<not> drop_state cmd \<Longrightarrow> \<not> drop_tables cmd \<Longrightarrow>
   DropCommand_call env cmd p =
     (if has_pending_data p
      then (Some (PipelineHasPendingDataException (pipeline_name p) (pipelines_dir p)), p, [])
      else (fst (pipeline_sync_destination env p), snd (pipeline_sync_destination env p),
            [SyncDestination]))"
  by (cases "pipeline_sync_destination env p")
     (auto simp: DropCommand_call_def split: option.splits)

text \<open>
  Claim C2, as the code has it. A command built with no resources, no state paths,
  \<open>drop_all = False\<close> and \<open>state_only = False\<close> is empty. Calling it raises
  \<open>PipelineHasPendingDataException\<close>, with no call made, when the pipeline has pending
  data; otherwise it calls \<open>pipeline.sync_destination()\<close> once, which contacts the
  destination and leaves the pipeline as the synchronisation leaves it, and then returns
  (or lets the exception of the synchronisation through): no version bump, nothing saved
  or extracted, no normalize and no load.
\<close>

theorem empty_drop_command_only_syncs:
  "DropCommand_init drop_resources p [] schema_name [] False False = Inr cmd \<longrightarrow>
     is_empty cmd
     \<and> DropCommand_call env cmd p =
         (if has_pending_data p
          then (Some (PipelineHasPendingDataException (pipeline_name p) (pipelines_dir p)),
                p, [])
          else (fst (pipeline_sync_destination env p), snd (pipeline_sync_destination env p),
                [SyncDestination]))"
proof
  assume a: "DropCommand_init drop_resources p [] schema_name [] False False = Inr cmd"
  from DropCommand_init_empty [OF a] have e: "is_empty cmd"
    and s: "\<not> drop_state cmd" and t: "\<not> drop_tables cmd"
    by simp_all
  from e DropCommand_call_nothing_to_drop [OF s t]
  show "is_empty cmd
     \<and> DropCommand_call env cmd p =
         (if has_pending_data p
          then (Some (PipelineHasPendingDataException (pipeline_name p) (pipelines_dir p)),
                p, [])
          else (fst (pipeline_sync_destination env p), snd (pipeline_sync_destination env p),
                [SyncDestination]))"
    by simp
qed

theorem empty_drop_command_only_syncs_witness:
  "\<exists>cmd. DropCommand_init drop_resources example_pipeline [] None [] False False = Inr cmd
     \<and> is_empty cmd
     \<and> snd (snd (DropCommand_call example_env cmd example_pipeline)) = [SyncDestination]
     \<and> fst (DropCommand_call example_env cmd example_pipeline) = None"
proof -
  have "\<exists>cmd. DropCommand_init drop_resources example_pipeline [] None [] False False = Inr cmd"
    by (simp add: DropCommand_init_def example_pipeline_def schema_key_def Let_def)
  then obtain cmd where
    init: "DropCommand_init drop_resources example_pipeline [] None [] False False = Inr cmd"
    by blast
  have np: "\<not> has_pending_data example_pipeline"
    by (simp add: has_pending_data_def example_pipeline_def)
  have sy: "fst (pipeline_sync_destination example_env example_pipeline) = None"
    by (simp add: example_env_def)
  from empty_drop_command_only_syncs
         [of example_pipeline None cmd example_env] init
  have e: "is_empty cmd"
    and c: "DropCommand_call example_env cmd example_pipeline =
         (if has_pending_data example_pipeline
          then (Some (PipelineHasPendingDataException (pipeline_name example_pipeline)
                        (pipelines_dir example_pipeline)), example_pipeline, [])
          else (fst (pipeline_sync_destination example_env example_pipeline),
                snd (pipeline_sync_destination example_env example_pipeline),
                [SyncDestination]))"
    by blast+
  from c np sy have "snd (snd (DropCommand_call example_env cmd example_pipeline))
                       = [SyncDestination]
     \<and> fst (DropCommand_call example_env cmd example_pipeline) = None"
    by simp
  with init e show ?thesis by blast
qed

text \<open>
  The claim as the spec states it fails: the empty command on a pipeline without pending
  data does make a call that reaches the destination, \<open>sync_destination\<close>, before it
  finds that there is nothing to drop; and the synchronisation may change the local state
  (here it restores the extraction marker).
\<close>

theorem empty_drop_command_counterexample:
  "snd (snd (drop drop_resources example_env example_pipeline [] None [] False False))
     = [SyncDestination]
   \<and> snd (snd (drop drop_resources example_env example_pipeline [] None [] False False)) \<noteq> []
   \<and> last_extracted (state (fst (snd
        (drop drop_resources example_env example_pipeline [] None [] False False))))
      \<noteq> last_extracted (state example_pipeline)"
  by (simp add: drop_def DropCommand_init_def DropCommand_call_def drop_resources_def
        example_pipeline_def example_env_def has_pending_data_def schema_key_def Let_def)

lemma DropCommand_init_Inr:
  "DropCommand_init dr p resources schema_name state_paths drop_all state_only = Inr cmd \<Longrightarrow>
   \<exists>dn. default_schema_name p = Some dn \<and> dn \<noteq> []
      \<and> schemas p (schema_key schema_name dn) = Some (cmd_schema cmd)
      \<and> cmd = \<lparr>cmd_schema = (cmd_schema cmd),
              new_state = dr_state (dr (cmd_schema cmd) (state p) resources state_paths drop_all state_only),
              info = dr_info (dr (cmd_schema cmd) (state p) resources state_paths drop_all state_only),
              new_schema = dr_schema (dr (cmd_schema cmd) (state p) resources state_paths drop_all state_only),
              dropped_tables = dr_dropped_tables (dr (cmd_schema cmd) (state p) resources state_paths drop_all state_only),
              drop_tables = (\<not> state_only
                 \<and> dr_dropped_tables (dr (cmd_schema cmd) (state p) resources state_paths drop_all state_only) \<noteq> []),
              drop_state = (drop_all \<or> resources \<noteq> [] \<or> state_paths \<noteq> [])\<rparr>"
  by (auto simp: DropCommand_init_def Let_def split: option.splits if_splits)

lemma drop_resources_schema:
  "dr_schema (drop_resources sch st resources state_paths drop_all state_only) =
     (let dropped = (if state_only then []
                     else map fst (filter (\<lambda>tr. drop_all \<or> snd tr \<in> set resources)
                                     (table_resource sch)))
      in sch\<lparr>tables := filter (\<lambda>t. t \<notin> set dropped) (tables sch),
             table_resource := filter (\<lambda>tr. fst tr \<notin> set dropped) (table_resource sch)\<rparr>)"
  by (simp add: drop_resources_def Let_def)

lemma drop_resources_dropped_tables:
  "dr_dropped_tables (drop_resources sch st resources state_paths drop_all state_only) =
     (if state_only then []
      else map fst (filter (\<lambda>tr. drop_all \<or> snd tr \<in> set resources) (table_resource sch)))"
  by (simp add: drop_resources_def Let_def)

lemma DropCommand_call_failed_load:
  assumes "\<not> has_pending_data p"
      and "pipeline_sync_destination env p = (None, p1)"
      and "drop_state cmd \<or> drop_tables cmd"
      and "pipeline_save_and_extract_state_and_schema env
             (force_state_extract (new_state cmd)) (bump_version env (new_schema cmd))
             (dropped_tables cmd) p1 = (None, p2)"
      and "pipeline_normalize env p2 = (None, p3)"
      and "pipeline_load env p3 = (Some e, p4)"
  shows "DropCommand_call env cmd p =
     (if is_Exception e
      then (Some e,
            save_schema (cmd_schema cmd)
              (managed_state_force_state_extract (drop_pending_packages p4)),
            [SyncDestination,
             SaveAndExtractStateAndSchema (force_state_extract (new_state cmd))
               (bump_version env (new_schema cmd)) (dropped_tables cmd),
             Normalize, Load,
             DropPendingPackages, ManagedStateForceStateExtract, SaveSchema (cmd_schema cmd)])
      else (Some e, p4,
            [SyncDestination,
             SaveAndExtractStateAndSchema (force_state_extract (new_state cmd))
               (bump_version env (new_schema cmd)) (dropped_tables cmd),
             Normalize, Load]))"
  using assms by (auto simp: DropCommand_call_def on_load_failure_def Let_def)

text \<open>
  Claim C8, as the code has it. When the load that \<open>DropCommand.__call__\<close> runs fails
  with an exception \<open>e\<close> of the class \<open>Exception\<close>, the command drops the pending
  packages, forces the extraction of the managed state and saves \<open>self.schema\<close>, the
  schema it cloned before the drop, in that order, and then raises the same \<open>e\<close>. The
  pipeline it leaves has no pending data (so the precondition of a second call holds), has
  the state the failed run left with the extraction marker cleared, and holds the pre-drop
  schema under its name. If the steps left the default schema name alone, a second
  construction with the same arguments reads that same schema back and computes its whole
  plan by \<open>drop_resources\<close> from that schema, the state the failed run left and the
  same arguments; with \<open>drop_resources\<close> as modelled, the new schema and the dropped
  tables of the second plan are those of the first. An exception that is not of the class
  \<open>Exception\<close> passes through the handler: the call ends after the load with no
  recovery step.
\<close>

theorem failed_load_restores_schema_and_reraises:
  "DropCommand_init dr p resources schema_name state_paths drop_all state_only = Inr cmd
   \<and> \<not> has_pending_data p
   \<and> pipeline_sync_destination env p = (None, p1)
   \<and> (drop_state cmd \<or> drop_tables cmd)
   \<and> pipeline_save_and_extract_state_and_schema env
        (force_state_extract (new_state cmd)) (bump_version env (new_schema cmd))
        (dropped_tables cmd) p1 = (None, p2)
   \<and> pipeline_normalize env p2 = (None, p3)
   \<and> pipeline_load env p3 = (Some e, p4)
   \<longrightarrow> (is_Exception e \<longrightarrow>
       (\<exists>p5.
         DropCommand_call env cmd p =
           (Some e, p5,
            [SyncDestination,
             SaveAndExtractStateAndSchema (force_state_extract (new_state cmd))
               (bump_version env (new_schema cmd)) (dropped_tables cmd),
             Normalize, Load,
             DropPendingPackages, ManagedStateForceStateExtract,
             SaveSchema (cmd_schema cmd)])
         \<and> p5 = save_schema (cmd_schema cmd)
                  (managed_state_force_state_extract (drop_pending_packages p4))
         \<and> pending_packages p5 = [] \<and> \<not> has_pending_data p5
         \<and> state p5 = force_state_extract (state p4)
         \<and> last_extracted (state p5) = None
         \<and> schemas p5 (name (cmd_schema cmd)) = Some (cmd_schema cmd)
         \<and> (\<forall>dn. default_schema_name p = Some dn \<and> default_schema_name p4 = Some dn
                  \<and> name (cmd_schema cmd) = schema_key schema_name dn
              \<longrightarrow> schemas p5 (schema_key schema_name dn) = schemas p (schema_key schema_name dn)
                \<and> cmd = \<lparr>cmd_schema = (cmd_schema cmd),
                        new_state = dr_state (dr (cmd_schema cmd) (state p) resources state_paths drop_all state_only),
                        info = dr_info (dr (cmd_schema cmd) (state p) resources state_paths drop_all state_only),
                        new_schema = dr_schema (dr (cmd_schema cmd) (state p) resources state_paths drop_all state_only),
                        dropped_tables = dr_dropped_tables (dr (cmd_schema cmd) (state p) resources state_paths drop_all state_only),
                        drop_tables = (\<not> state_only
                           \<and> dr_dropped_tables (dr (cmd_schema cmd) (state p) resources state_paths drop_all state_only) \<noteq> []),
                        drop_state = (drop_all \<or> resources \<noteq> [] \<or> state_paths \<noteq> [])\<rparr>
                \<and> DropCommand_init dr p5 resources schema_name state_paths drop_all state_only
                    = Inr \<lparr>cmd_schema = (cmd_schema cmd),
                          new_state = dr_state (dr (cmd_schema cmd) (state p5) resources state_paths drop_all state_only),
                          info = dr_info (dr (cmd_schema cmd) (state p5) resources state_paths drop_all state_only),
                          new_schema = dr_schema (dr (cmd_schema cmd) (state p5) resources state_paths drop_all state_only),
                          dropped_tables = dr_dropped_tables (dr (cmd_schema cmd) (state p5) resources state_paths drop_all state_only),
                          drop_tables = (\<not> state_only
                             \<and> dr_dropped_tables (dr (cmd_schema cmd) (state p5) resources state_paths drop_all state_only) \<noteq> []),
                          drop_state = (drop_all \<or> resources \<noteq> [] \<or> state_paths \<noteq> [])\<rparr>
                \<and> (dr = drop_resources \<longrightarrow>
                      dr_schema (dr (cmd_schema cmd) (state p5) resources state_paths drop_all state_only)
                        = new_schema cmd
                      \<and> dr_dropped_tables (dr (cmd_schema cmd) (state p5) resources state_paths drop_all state_only)
                        = dropped_tables cmd))))
     \<and> (\<not> is_Exception e \<longrightarrow>
         DropCommand_call env cmd p =
           (Some e, p4,
            [SyncDestination,
             SaveAndExtractStateAndSchema (force_state_extract (new_state cmd))
               (bump_version env (new_schema cmd)) (dropped_tables cmd),
             Normalize, Load]))"
proof (intro impI conjI)
  assume a: "DropCommand_init dr p resources schema_name state_paths drop_all state_only = Inr cmd
   \<and> \<not> has_pending_data p
   \<and> pipeline_sync_destination env p = (None, p1)
   \<and> (drop_state cmd \<or> drop_tables cmd)
   \<and> pipeline_save_and_extract_state_and_schema env
        (force_state_extract (new_state cmd)) (bump_version env (new_schema cmd))
        (dropped_tables cmd) p1 = (None, p2)
   \<and> pipeline_normalize env p2 = (None, p3)
   \<and> pipeline_load env p3 = (Some e, p4)"
    and exc: "is_Exception e"
  let ?sch = "cmd_schema cmd"
  let ?p5 = "save_schema ?sch (managed_state_force_state_extract (drop_pending_packages p4))"
  from a have init: "DropCommand_init dr p resources schema_name state_paths drop_all state_only
                     = Inr cmd"
    by simp
  from a have "DropCommand_call env cmd p =
     (if is_Exception e
      then (Some e, ?p5,
            [SyncDestination,
             SaveAndExtractStateAndSchema (force_state_extract (new_state cmd))
               (bump_version env (new_schema cmd)) (dropped_tables cmd),
             Normalize, Load,
             DropPendingPackages, ManagedStateForceStateExtract, SaveSchema ?sch])
      else (Some e, p4,
            [SyncDestination,
             SaveAndExtractStateAndSchema (force_state_extract (new_state cmd))
               (bump_version env (new_schema cmd)) (dropped_tables cmd),
             Normalize, Load]))"
    by (intro DropCommand_call_failed_load [where ?p1.0 = p1 and ?p2.0 = p2 and ?p3.0 = p3])
       simp_all
  with exc have call: "DropCommand_call env cmd p =
     (Some e, ?p5,
            [SyncDestination,
             SaveAndExtractStateAndSchema (force_state_extract (new_state cmd))
               (bump_version env (new_schema cmd)) (dropped_tables cmd),
             Normalize, Load,
             DropPendingPackages, ManagedStateForceStateExtract,
             SaveSchema ?sch])"
    by simp
  have pend: "pending_packages ?p5 = []" and npd: "\<not> has_pending_data ?p5"
    and st5: "state ?p5 = force_state_extract (state p4)"
    and mark: "last_extracted (state ?p5) = None"
    and sch: "schemas ?p5 (name ?sch) = Some ?sch"
    and dsn: "default_schema_name ?p5 = default_schema_name p4"
    by (simp_all add: save_schema_def managed_state_force_state_extract_def
                      drop_pending_packages_def force_state_extract_def has_pending_data_def)
  from DropCommand_init_Inr [OF init] obtain dn0 where i:
      "default_schema_name p = Some dn0" "dn0 \<noteq> []"
      "schemas p (schema_key schema_name dn0) = Some ?sch"
      "cmd = \<lparr>cmd_schema = ?sch,
            new_state = dr_state (dr ?sch (state p) resources state_paths drop_all state_only),
            info = dr_info (dr ?sch (state p) resources state_paths drop_all state_only),
            new_schema = dr_schema (dr ?sch (state p) resources state_paths drop_all state_only),
            dropped_tables = dr_dropped_tables (dr ?sch (state p) resources state_paths drop_all state_only),
            drop_tables = (\<not> state_only
               \<and> dr_dropped_tables (dr ?sch (state p) resources state_paths drop_all state_only) \<noteq> []),
            drop_state = (drop_all \<or> resources \<noteq> [] \<or> state_paths \<noteq> [])\<rparr>"
    by blast
  have again: "(\<forall>dn. default_schema_name p = Some dn \<and> default_schema_name p4 = Some dn
           \<and> name ?sch = schema_key schema_name dn
       \<longrightarrow> schemas ?p5 (schema_key schema_name dn) = schemas p (schema_key schema_name dn)
         \<and> cmd = \<lparr>cmd_schema = ?sch,
                 new_state = dr_state (dr ?sch (state p) resources state_paths drop_all state_only),
                 info = dr_info (dr ?sch (state p) resources state_paths drop_all state_only),
                 new_schema = dr_schema (dr ?sch (state p) resources state_paths drop_all state_only),
                 dropped_tables = dr_dropped_tables (dr ?sch (state p) resources state_paths drop_all state_only),
                 drop_tables = (\<not> state_only
                    \<and> dr_dropped_tables (dr ?sch (state p) resources state_paths drop_all state_only) \<noteq> []),
                 drop_state = (drop_all \<or> resources \<noteq> [] \<or> state_paths \<noteq> [])\<rparr>
         \<and> DropCommand_init dr ?p5 resources schema_name state_paths drop_all state_only
             = Inr \<lparr>cmd_schema = ?sch,
                   new_state = dr_state (dr ?sch (state ?p5) resources state_paths drop_all state_only),
                   info = dr_info (dr ?sch (state ?p5) resources state_paths drop_all state_only),
                   new_schema = dr_schema (dr ?sch (state ?p5) resources state_paths drop_all state_only),
                   dropped_tables = dr_dropped_tables (dr ?sch (state ?p5) resources state_paths drop_all state_only),
                   drop_tables = (\<not> state_only
                      \<and> dr_dropped_tables (dr ?sch (state ?p5) resources state_paths drop_all state_only) \<noteq> []),
                   drop_state = (drop_all \<or> resources \<noteq> [] \<or> state_paths \<noteq> [])\<rparr>
         \<and> (dr = drop_resources \<longrightarrow>
               dr_schema (dr ?sch (state ?p5) resources state_paths drop_all state_only)
                 = new_schema cmd
               \<and> dr_dropped_tables (dr ?sch (state ?p5) resources state_paths drop_all state_only)
                 = dropped_tables cmd))"
  proof (intro allI impI)
    fix dn
    assume h: "default_schema_name p = Some dn \<and> default_schema_name p4 = Some dn
                  \<and> name ?sch = schema_key schema_name dn"
    with i(1) have dn: "dn = dn0" by simp
    from h sch have s5: "schemas ?p5 (schema_key schema_name dn) = Some ?sch"
      by simp
    with i(3) dn have same: "schemas ?p5 (schema_key schema_name dn)
                             = schemas p (schema_key schema_name dn)"
      by simp
    from h dsn have d5: "default_schema_name ?p5 = Some dn"
      by simp
    have extra: "dr = drop_resources \<longrightarrow>
           dr_schema (dr ?sch (state ?p5) resources state_paths drop_all state_only)
             = new_schema cmd
           \<and> dr_dropped_tables (dr ?sch (state ?p5) resources state_paths drop_all state_only)
             = dropped_tables cmd"
    proof
      assume d: "dr = drop_resources"
      have n: "new_schema cmd
               = dr_schema (dr ?sch (state p) resources state_paths drop_all state_only)"
        and t: "dropped_tables cmd
               = dr_dropped_tables (dr ?sch (state p) resources state_paths drop_all state_only)"
        by (subst i(4), simp)+
      show "dr_schema (dr ?sch (state ?p5) resources state_paths drop_all state_only)
             = new_schema cmd
           \<and> dr_dropped_tables (dr ?sch (state ?p5) resources state_paths drop_all state_only)
             = dropped_tables cmd"
        unfolding n t d by (simp add: drop_resources_schema drop_resources_dropped_tables)
    qed
    from d5 s5 dn i(2) have second: "DropCommand_init dr ?p5 resources schema_name state_paths
                              drop_all state_only = Inr \<lparr>cmd_schema = ?sch,
            new_state = dr_state (dr ?sch (state ?p5) resources state_paths drop_all state_only),
            info = dr_info (dr ?sch (state ?p5) resources state_paths drop_all state_only),
            new_schema = dr_schema (dr ?sch (state ?p5) resources state_paths drop_all state_only),
            dropped_tables = dr_dropped_tables (dr ?sch (state ?p5) resources state_paths drop_all state_only),
            drop_tables = (\<not> state_only
               \<and> dr_dropped_tables (dr ?sch (state ?p5) resources state_paths drop_all state_only) \<noteq> []),
            drop_state = (drop_all \<or> resources \<noteq> [] \<or> state_paths \<noteq> [])\<rparr>"
      by (simp add: DropCommand_init_def Let_def)
    from same i(4) second extra
    show "schemas ?p5 (schema_key schema_name dn) = schemas p (schema_key schema_name dn)
     \<and> cmd = \<lparr>cmd_schema = ?sch,
            new_state = dr_state (dr ?sch (state p) resources state_paths drop_all state_only),
            info = dr_info (dr ?sch (state p) resources state_paths drop_all state_only),
            new_schema = dr_schema (dr ?sch (state p) resources state_paths drop_all state_only),
            dropped_tables = dr_dropped_tables (dr ?sch (state p) resources state_paths drop_all state_only),
            drop_tables = (\<not> state_only
               \<and> dr_dropped_tables (dr ?sch (state p) resources state_paths drop_all state_only) \<noteq> []),
            drop_state = (drop_all \<or> resources \<noteq> [] \<or> state_paths \<noteq> [])\<rparr>
     \<and> DropCommand_init dr ?p5 resources schema_name state_paths drop_all state_only
         = Inr \<lparr>cmd_schema = ?sch,
            new_state = dr_state (dr ?sch (state ?p5) resources state_paths drop_all state_only),
            info = dr_info (dr ?sch (state ?p5) resources state_paths drop_all state_only),
            new_schema = dr_schema (dr ?sch (state ?p5) resources state_paths drop_all state_only),
            dropped_tables = dr_dropped_tables (dr ?sch (state ?p5) resources state_paths drop_all state_only),
            drop_tables = (\<not> state_only
               \<and> dr_dropped_tables (dr ?sch (state ?p5) resources state_paths drop_all state_only) \<noteq> []),
            drop_state = (drop_all \<or> resources \<noteq> [] \<or> state_paths \<noteq> [])\<rparr>
     \<and> (dr = drop_resources \<longrightarrow>
           dr_schema (dr ?sch (state ?p5) resources state_paths drop_all state_only)
             = new_schema cmd
           \<and> dr_dropped_tables (dr ?sch (state ?p5) resources state_paths drop_all state_only)
             = dropped_tables cmd)"
      by (intro conjI) assumption+
  qed
  from call pend npd st5 mark sch again
  show "\<exists>p5.
         DropCommand_call env cmd p =
           (Some e, p5,
            [SyncDestination,
             SaveAndExtractStateAndSchema (force_state_extract (new_state cmd))
               (bump_version env (new_schema cmd)) (dropped_tables cmd),
             Normalize, Load,
             DropPendingPackages, ManagedStateForceStateExtract,
             SaveSchema (cmd_schema cmd)])
         \<and> p5 = save_schema (cmd_schema cmd)
                  (managed_state_force_state_extract (drop_pending_packages p4))
         \<and> pending_packages p5 = [] \<and> \<not> has_pending_data p5
         \<and> state p5 = force_state_extract (state p4)
         \<and> last_extracted (state p5) = None
         \<and> schemas p5 (name (cmd_schema cmd)) = Some (cmd_schema cmd)
         \<and> (\<forall>dn. default_schema_name p = Some dn \<and> default_schema_name p4 = Some dn
                  \<and> name (cmd_schema cmd) = schema_key schema_name dn
              \<longrightarrow> schemas p5 (schema_key schema_name dn) = schemas p (schema_key schema_name dn)
                \<and> cmd = \<lparr>cmd_schema = (cmd_schema cmd),
                        new_state = dr_state (dr (cmd_schema cmd) (state p) resources state_paths drop_all state_only),
                        info = dr_info (dr (cmd_schema cmd) (state p) resources state_paths drop_all state_only),
                        new_schema = dr_schema (dr (cmd_schema cmd) (state p) resources state_paths drop_all state_only),
                        dropped_tables = dr_dropped_tables (dr (cmd_schema cmd) (state p) resources state_paths drop_all state_only),
                        drop_tables = (\<not> state_only
                           \<and> dr_dropped_tables (dr (cmd_schema cmd) (state p) resources state_paths drop_all state_only) \<noteq> []),
                        drop_state = (drop_all \<or> resources \<noteq> [] \<or> state_paths \<noteq> [])\<rparr>
                \<and> DropCommand_init dr p5 resources schema_name state_paths drop_all state_only
                    = Inr \<lparr>cmd_schema = (cmd_schema cmd),
                          new_state = dr_state (dr (cmd_schema cmd) (state p5) resources state_paths drop_all state_only),
                          info = dr_info (dr (cmd_schema cmd) (state p5) resources state_paths drop_all state_only),
                          new_schema = dr_schema (dr (cmd_schema cmd) (state p5) resources state_paths drop_all state_only),
                          dropped_tables = dr_dropped_tables (dr (cmd_schema cmd) (state p5) resources state_paths drop_all state_only),
                          drop_tables = (\<not> state_only
                             \<and> dr_dropped_tables (dr (cmd_schema cmd) (state p5) resources state_paths drop_all state_only) \<noteq> []),
                          drop_state = (drop_all \<or> resources \<noteq> [] \<or> state_paths \<noteq> [])\<rparr>
                \<and> (dr = drop_resources \<longrightarrow>
                      dr_schema (dr (cmd_schema cmd) (state p5) resources state_paths drop_all state_only)
                        = new_schema cmd
                      \<and> dr_dropped_tables (dr (cmd_schema cmd) (state p5) resources state_paths drop_all state_only)
                        = dropped_tables cmd))"
    by (intro exI [of _ ?p5] conjI) (rule refl | assumption)+
next
  assume a: "DropCommand_init dr p resources schema_name state_paths drop_all state_only = Inr cmd
   \<and> \<not> has_pending_data p
   \<and> pipeline_sync_destination env p = (None, p1)
   \<and> (drop_state cmd \<or> drop_tables cmd)
   \<and> pipeline_save_and_extract_state_and_schema env
        (force_state_extract (new_state cmd)) (bump_version env (new_schema cmd))
        (dropped_tables cmd) p1 = (None, p2)
   \<and> pipeline_normalize env p2 = (None, p3)
   \<and> pipeline_load env p3 = (Some e, p4)"
    and exc: "\<not> is_Exception e"
  from a have "DropCommand_call env cmd p =
     (if is_Exception e
      then (Some e,
            save_schema (cmd_schema cmd)
              (managed_state_force_state_extract (drop_pending_packages p4)),
            [SyncDestination,
             SaveAndExtractStateAndSchema (force_state_extract (new_state cmd))
               (bump_version env (new_schema cmd)) (dropped_tables cmd),
             Normalize, Load,
             DropPendingPackages, ManagedStateForceStateExtract, SaveSchema (cmd_schema cmd)])
      else (Some e, p4,
            [SyncDestination,
             SaveAndExtractStateAndSchema (force_state_extract (new_state cmd))
               (bump_version env (new_schema cmd)) (dropped_tables cmd),
             Normalize, Load]))"
    by (intro DropCommand_call_failed_load [where ?p1.0 = p1 and ?p2.0 = p2 and ?p3.0 = p3])
       simp_all
  with exc show "DropCommand_call env cmd p =
           (Some e, p4,
            [SyncDestination,
             SaveAndExtractStateAndSchema (force_state_extract (new_state cmd))
               (bump_version env (new_schema cmd)) (dropped_tables cmd),
             Normalize, Load])"
    by simp
qed

lemma example_drop_command:
  "\<exists>cmd. DropCommand_init drop_resources example_pipeline [''orders''] None [] False False
           = Inr cmd
         \<and> cmd_schema cmd = example_schema
         \<and> new_state cmd = \<lparr>resource_states = [(''users'', ''u1'')], source_state = [],
                             last_extracted = Some ''e1''\<rparr>
         \<and> info cmd = \<lparr>info_tables = [''orders''], info_state_paths = [],
                        info_resource_states = [''orders'']\<rparr>
         \<and> dropped_tables cmd = [''orders'']
         \<and> drop_state cmd"
  by (simp add: DropCommand_init_def drop_resources_def example_pipeline_def example_schema_def
                schema_key_def Let_def)

lemma example_steps:
  "pipeline_sync_destination example_env p
     = (None, p\<lparr>state := (state p)\<lparr>last_extracted := Some ''e2''\<rparr>\<rparr>)"
  "pipeline_save_and_extract_state_and_schema example_env st sch dropped p
     = (None, p\<lparr>schemas := (schemas p)(name sch \<mapsto> sch), state := st,
                pending_packages := pending_packages p @ [''package'']\<rparr>)"
  "pipeline_normalize example_env p = (None, p)"
  "pipeline_load example_env p = (Some ResponseHandlingException, p)"
  "pipeline_sync_destination interrupted_env p = pipeline_sync_destination example_env p"
  "pipeline_save_and_extract_state_and_schema interrupted_env st sch dropped p
     = pipeline_save_and_extract_state_and_schema example_env st sch dropped p"
  "pipeline_normalize interrupted_env p = (None, p)"
  "pipeline_load interrupted_env p = (Some KeyboardInterrupt, p)"
  "bump_version interrupted_env = bump_version example_env"
  by (simp_all add: example_env_def interrupted_env_def)

theorem failed_load_restores_schema_and_reraises_witness:
  "\<exists>cmd p5 calls cmd2 p6 calls6.
     DropCommand_init drop_resources example_pipeline [''orders''] None [] False False = Inr cmd
     \<and> cmd_schema cmd = example_schema
     \<and> \<not> has_pending_data example_pipeline
     \<and> is_Exception ResponseHandlingException
     \<and> DropCommand_call example_env cmd example_pipeline
         = (Some ResponseHandlingException, p5, calls)
     \<and> length calls = 7
     \<and> pending_packages p5 = []
     \<and> last_extracted (state p5) = None
     \<and> schemas p5 ''s'' = Some example_schema
     \<and> DropCommand_init drop_resources p5 [''orders''] None [] False False = Inr cmd2
     \<and> new_schema cmd2 = new_schema cmd
     \<and> dropped_tables cmd2 = dropped_tables cmd
     \<and> \<not> is_Exception KeyboardInterrupt
     \<and> DropCommand_call interrupted_env cmd example_pipeline
         = (Some KeyboardInterrupt, p6, calls6)
     \<and> length calls6 = 4"
proof -
  from example_drop_command obtain cmd where init:
    "DropCommand_init drop_resources example_pipeline [''orders''] None [] False False = Inr cmd"
    and sch: "cmd_schema cmd = example_schema"
    and ds: "drop_state cmd"
    by blast
  have npd: "\<not> has_pending_data example_pipeline"
    by (simp add: has_pending_data_def example_pipeline_def)
  define p1 where "p1 = snd (pipeline_sync_destination example_env example_pipeline)"
  define p2 where "p2 = snd (pipeline_save_and_extract_state_and_schema example_env
        (force_state_extract (new_state cmd)) (bump_version example_env (new_schema cmd))
        (dropped_tables cmd) p1)"
  have s1: "pipeline_sync_destination example_env example_pipeline = (None, p1)"
    by (simp add: p1_def example_steps)
  have s2: "pipeline_save_and_extract_state_and_schema example_env
        (force_state_extract (new_state cmd)) (bump_version example_env (new_schema cmd))
        (dropped_tables cmd) p1 = (None, p2)"
    by (simp add: p2_def example_steps)
  have s3: "pipeline_normalize example_env p2 = (None, p2)"
    by (simp add: example_steps)
  have s4: "pipeline_load example_env p2 = (Some ResponseHandlingException, p2)"
    by (simp add: example_steps)
  have exc: "is_Exception ResponseHandlingException"
    by simp
  have d0: "default_schema_name example_pipeline = Some ''s''"
    by (simp add: example_pipeline_def)
  have d2: "default_schema_name p2 = Some ''s''"
    by (simp add: p2_def p1_def example_steps example_pipeline_def)
  from sch have nm: "name (cmd_schema cmd) = schema_key None ''s''"
    by (simp add: example_schema_def schema_key_def)
  let ?plan = "\<lambda>st.
      \<lparr>cmd_schema = cmd_schema cmd,
       new_state = dr_state (drop_resources (cmd_schema cmd) st [''orders''] [] False False),
       info = dr_info (drop_resources (cmd_schema cmd) st [''orders''] [] False False),
       new_schema = dr_schema (drop_resources (cmd_schema cmd) st [''orders''] [] False False),
       dropped_tables =
         dr_dropped_tables (drop_resources (cmd_schema cmd) st [''orders''] [] False False),
       drop_tables = (\<not> False
          \<and> dr_dropped_tables (drop_resources (cmd_schema cmd) st [''orders''] [] False False)
              \<noteq> []),
       drop_state = (False \<or> [''orders''] \<noteq> [] \<or> ([]::string list) \<noteq> [])\<rparr>"
  note inst = failed_load_restores_schema_and_reraises
    [where dr = drop_resources and p = example_pipeline and resources = "[''orders'']"
       and schema_name = None and state_paths = "[]" and drop_all = False
       and state_only = False and cmd = cmd and env = example_env
       and ?p1.0 = p1 and ?p2.0 = p2 and ?p3.0 = p2 and ?p4.0 = p2
       and e = ResponseHandlingException]
  from inst init npd s1 ds s2 s3 s4 exc d0 d2 nm obtain p5 where r:
      "DropCommand_call example_env cmd example_pipeline =
           (Some ResponseHandlingException, p5,
            [SyncDestination,
             SaveAndExtractStateAndSchema (force_state_extract (new_state cmd))
               (bump_version example_env (new_schema cmd)) (dropped_tables cmd),
             Normalize, Load,
             DropPendingPackages, ManagedStateForceStateExtract,
             SaveSchema (cmd_schema cmd)])"
      "pending_packages p5 = []"
      "last_extracted (state p5) = None"
      "schemas p5 (name (cmd_schema cmd)) = Some (cmd_schema cmd)"
      "DropCommand_init drop_resources p5 [''orders''] None [] False False
         = Inr (?plan (state p5))"
      "dr_schema (drop_resources (cmd_schema cmd) (state p5) [''orders''] [] False False)
         = new_schema cmd"
      "dr_dropped_tables (drop_resources (cmd_schema cmd) (state p5) [''orders''] [] False False)
         = dropped_tables cmd"
    by blast
  from r(4) sch have s5: "schemas p5 ''s'' = Some example_schema"
    by (simp add: example_schema_def)
  from r(6) have n2: "new_schema (?plan (state p5)) = new_schema cmd"
    by simp
  from r(7) have t2: "dropped_tables (?plan (state p5)) = dropped_tables cmd"
    by simp
  have i1: "pipeline_sync_destination interrupted_env example_pipeline = (None, p1)"
    by (simp add: p1_def example_steps)
  have i2: "pipeline_save_and_extract_state_and_schema interrupted_env
        (force_state_extract (new_state cmd)) (bump_version interrupted_env (new_schema cmd))
        (dropped_tables cmd) p1 = (None, p2)"
    by (simp add: p2_def example_steps)
  have i3: "pipeline_normalize interrupted_env p2 = (None, p2)"
    by (simp add: example_steps)
  have i4: "pipeline_load interrupted_env p2 = (Some KeyboardInterrupt, p2)"
    by (simp add: example_steps)
  have nexc: "\<not> is_Exception KeyboardInterrupt"
    by simp
  note inst6 = failed_load_restores_schema_and_reraises
    [where dr = drop_resources and p = example_pipeline and resources = "[''orders'']"
       and schema_name = None and state_paths = "[]" and drop_all = False
       and state_only = False and cmd = cmd and env = interrupted_env
       and ?p1.0 = p1 and ?p2.0 = p2 and ?p3.0 = p2 and ?p4.0 = p2
       and e = KeyboardInterrupt]
  from inst6 init npd i1 ds i2 i3 i4 nexc
  have r6: "DropCommand_call interrupted_env cmd example_pipeline =
           (Some KeyboardInterrupt, p2,
            [SyncDestination,
             SaveAndExtractStateAndSchema (force_state_extract (new_state cmd))
               (bump_version interrupted_env (new_schema cmd)) (dropped_tables cmd),
             Normalize, Load])"
    by blast
  from init sch npd exc r(1) r(2) r(3) s5 r(5) n2 t2 nexc r6 show ?thesis
    by (intro exI [of _ cmd] exI [of _ p5] exI [of _ "?plan (state p5)"] exI [of _ p2]
              exI conjI)
       (assumption | simp)+
qed

text \<open>
  The claim as the spec states it fails in two ways. After the failed drop of the resource
  "orders" the local state is the one that the command saved before the load, without the
  state of "orders": the second construction with the same arguments finds no resource
  state to drop and computes another plan (another \<open>info\<close>, another new state).
  And when the load is ended by \<open>KeyboardInterrupt\<close>, which is not an
  \<open>Exception\<close>, no recovery step runs: the pending package stays and the schema
  storage holds the schema without the dropped table, not the pre-drop schema.
\<close>

theorem failed_drop_second_plan_counterexample:
  "(\<exists>cmd p5 calls cmd2.
      DropCommand_init drop_resources example_pipeline [''orders''] None [] False False
        = Inr cmd
      \<and> DropCommand_call example_env cmd example_pipeline
          = (Some ResponseHandlingException, p5, calls)
      \<and> DropCommand_init drop_resources p5 [''orders''] None [] False False = Inr cmd2
      \<and> info_resource_states (info cmd) = [''orders'']
      \<and> info_resource_states (info cmd2) = []
      \<and> info cmd2 \<noteq> info cmd
      \<and> new_state cmd2 \<noteq> new_state cmd)
   \<and> (\<exists>cmd p6 calls.
      DropCommand_init drop_resources example_pipeline [''orders''] None [] False False
        = Inr cmd
      \<and> DropCommand_call interrupted_env cmd example_pipeline
          = (Some KeyboardInterrupt, p6, calls)
      \<and> length calls = 4
      \<and> pending_packages p6 = [''package'']
      \<and> has_pending_data p6
      \<and> schemas p6 ''s'' \<noteq> Some example_schema)"
proof -
  from example_drop_command obtain cmd where init:
    "DropCommand_init drop_resources example_pipeline [''orders''] None [] False False = Inr cmd"
    and sch: "cmd_schema cmd = example_schema"
    and ns: "new_state cmd = \<lparr>resource_states = [(''users'', ''u1'')], source_state = [],
                               last_extracted = Some ''e1''\<rparr>"
    and inf: "info cmd = \<lparr>info_tables = [''orders''], info_state_paths = [],
                          info_resource_states = [''orders'']\<rparr>"
    and dt: "dropped_tables cmd = [''orders'']"
    and ds: "drop_state cmd"
    by blast
  from DropCommand_init_Inr [OF init] have
    nsch: "new_schema cmd = dr_schema (drop_resources (cmd_schema cmd) (state example_pipeline)
                               [''orders''] [] False False)"
    by (metis drop_command.select_convs(4))
  have npd: "\<not> has_pending_data example_pipeline"
    by (simp add: has_pending_data_def example_pipeline_def)
  let ?p1 = "example_pipeline\<lparr>state := (state example_pipeline)\<lparr>last_extracted := Some ''e2''\<rparr>\<rparr>"
  let ?sch2 = "bump_version example_env (new_schema cmd)"
  let ?p2 = "?p1\<lparr>schemas := (schemas ?p1)(name ?sch2 \<mapsto> ?sch2),
                 state := force_state_extract (new_state cmd),
                 pending_packages := pending_packages ?p1 @ [''package'']\<rparr>"
  let ?p5 = "save_schema (cmd_schema cmd)
               (managed_state_force_state_extract (drop_pending_packages ?p2))"
  have s1: "pipeline_sync_destination example_env example_pipeline = (None, ?p1)"
    by (simp add: example_steps)
  have s2: "pipeline_save_and_extract_state_and_schema example_env
        (force_state_extract (new_state cmd)) ?sch2 (dropped_tables cmd) ?p1 = (None, ?p2)"
    by (simp add: example_steps)
  have s3: "pipeline_normalize example_env ?p2 = (None, ?p2)"
    by (simp add: example_steps)
  have s4: "pipeline_load example_env ?p2 = (Some ResponseHandlingException, ?p2)"
    by (simp add: example_steps)
  from ds have ds': "drop_state cmd \<or> drop_tables cmd"
    by simp
  from DropCommand_call_failed_load [OF npd s1 ds' s2 s3 s4]
  have call: "DropCommand_call example_env cmd example_pipeline =
      (Some ResponseHandlingException, ?p5,
       [SyncDestination,
        SaveAndExtractStateAndSchema (force_state_extract (new_state cmd)) ?sch2
          (dropped_tables cmd),
        Normalize, Load,
        DropPendingPackages, ManagedStateForceStateExtract, SaveSchema (cmd_schema cmd)])"
    by simp
  define p5 where "p5 = ?p5"
  have st5: "state p5 = \<lparr>resource_states = [(''users'', ''u1'')], source_state = [],
                           last_extracted = None\<rparr>"
    by (simp add: p5_def save_schema_def managed_state_force_state_extract_def
                  drop_pending_packages_def force_state_extract_def ns)
  have dn5: "default_schema_name p5 = Some ''s''"
    by (simp add: p5_def save_schema_def managed_state_force_state_extract_def
                  drop_pending_packages_def example_pipeline_def)
  have sc5: "schemas p5 ''s'' = Some example_schema"
    by (simp add: p5_def save_schema_def sch example_schema_def)
  have "\<exists>cmd2. DropCommand_init drop_resources p5 [''orders''] None [] False False = Inr cmd2
          \<and> info_resource_states (info cmd2) = []
          \<and> last_extracted (new_state cmd2) = None"
    by (simp add: DropCommand_init_def dn5 sc5 st5 schema_key_def Let_def drop_resources_def)
  then obtain cmd2 where init2:
      "DropCommand_init drop_resources ?p5 [''orders''] None [] False False = Inr cmd2"
    and inf2: "info_resource_states (info cmd2) = []"
    and le2: "last_extracted (new_state cmd2) = None"
    unfolding p5_def by blast
  from inf inf2 have d1: "info cmd2 \<noteq> info cmd"
    by auto
  from ns le2 have d2: "new_state cmd2 \<noteq> new_state cmd"
    by auto
  from inf have inf1: "info_resource_states (info cmd) = [''orders'']"
    by simp
  from init call init2 inf1 inf2 d1 d2
  have first: "\<exists>cmd p5 calls cmd2.
      DropCommand_init drop_resources example_pipeline [''orders''] None [] False False
        = Inr cmd
      \<and> DropCommand_call example_env cmd example_pipeline
          = (Some ResponseHandlingException, p5, calls)
      \<and> DropCommand_init drop_resources p5 [''orders''] None [] False False = Inr cmd2
      \<and> info_resource_states (info cmd) = [''orders'']
      \<and> info_resource_states (info cmd2) = []
      \<and> info cmd2 \<noteq> info cmd
      \<and> new_state cmd2 \<noteq> new_state cmd"
    by blast
  have i1: "pipeline_sync_destination interrupted_env example_pipeline = (None, ?p1)"
    by (simp add: example_steps)
  have i2: "pipeline_save_and_extract_state_and_schema interrupted_env
        (force_state_extract (new_state cmd)) (bump_version interrupted_env (new_schema cmd))
        (dropped_tables cmd) ?p1 = (None, ?p2)"
    by (simp add: example_steps)
  have i3: "pipeline_normalize interrupted_env ?p2 = (None, ?p2)"
    by (simp add: example_steps)
  have i4: "pipeline_load interrupted_env ?p2 = (Some KeyboardInterrupt, ?p2)"
    by (simp add: example_steps)
  from DropCommand_call_failed_load [OF npd i1 ds' i2 i3 i4]
  have call6: "DropCommand_call interrupted_env cmd example_pipeline =
      (Some KeyboardInterrupt, ?p2,
       [SyncDestination,
        SaveAndExtractStateAndSchema (force_state_extract (new_state cmd))
          (bump_version interrupted_env (new_schema cmd)) (dropped_tables cmd),
        Normalize, Load])"
    by simp
  have pp: "pending_packages ?p2 = [''package'']"
    by (simp add: example_pipeline_def)
  then have hp: "has_pending_data ?p2"
    by (simp add: has_pending_data_def)
  have nsch2: "name ?sch2 = ''s''" and tb: "tables ?sch2 = [''users'']"
    by (simp_all add: nsch sch example_env_def drop_resources_schema example_schema_def Let_def)
  from tb have "?sch2 \<noteq> example_schema"
    by (auto simp: example_schema_def)
  with nsch2 have ss: "schemas ?p2 ''s'' \<noteq> Some example_schema"
    by simp
  from init call6 pp hp ss
  have second: "\<exists>cmd p6 calls.
      DropCommand_init drop_resources example_pipeline [''orders''] None [] False False
        = Inr cmd
      \<and> DropCommand_call interrupted_env cmd example_pipeline
          = (Some KeyboardInterrupt, p6, calls)
      \<and> length calls = 4
      \<and> pending_packages p6 = [''package'']
      \<and> has_pending_data p6
      \<and> schemas p6 ''s'' \<noteq> Some example_schema"
    by (intro exI [of _ cmd] exI [of _ ?p2] exI conjI) (assumption | simp)+
  from first second show ?thesis
    by (rule conjI)
qed

end
